theory Spec2Isabelle
  imports Complex_Main "HOL-Library.Word" "HOL-Library.Sublist"
begin

section \<open>Data model: the relational schema as the route handlers see it\<close>

text \<open>
  Rows are records with one field per column the handlers read or write.
  \<^item> \<open>UUID\<close> columns are 128-bit words; a nullable foreign key is an \<open>option\<close>.
  \<^item> \<open>DATE\<close> is a day number, \<open>TIME\<close> is seconds since midnight, \<open>TIMESTAMP\<close> is an
    integer instant. A request's date and time strings stand for the \<open>DATE\<close> and
    \<open>TIME\<close> values the store casts them to, since the SQL comparisons are on those.
  \<^item> \<open>DECIMAL\<close> columns and the JavaScript numbers computed from them have the type
    parameter \<open>'n\<close>; the handlers only use \<open>*\<close>, \<open>/\<close>, \<open>+\<close> and numerals on it, and nothing
    is assumed about that arithmetic.
  \<^item> Status columns are strings. They, the boolean flags and \<open>commission_rate\<close> have
    a \<open>DEFAULT\<close> and every \<open>INSERT\<close> of the repository sets or defaults them, so in
    the rows of the handlers they carry a value (the schema itself, modelled further
    down, lets them be \<open>NULL\<close>).
  \<^item> A JavaScript string is its list of UTF-16 code units; all code units in the
    literals of the source are below 256 and are written as one \<open>char\<close> each.
\<close>

type_synonym uuid = "128 word"
type_synonym date = int
type_synonym time = int
type_synonym timestamp = int

record user =
  u_id :: uuid
  u_name :: string
  u_email :: string
  u_role :: string
  u_is_active :: bool

record 'n affiliate =
  a_id :: uuid
  a_user_id :: "uuid option"
  a_referral_code :: string
  a_commission_rate :: 'n
  a_total_referrals :: int
  a_total_commission :: 'n
  a_is_active :: bool
  a_created_at :: timestamp
  a_updated_at :: timestamp

record 'n service =
  s_id :: uuid
  s_therapist_id :: "uuid option"
  s_name :: string
  s_price :: 'n
  s_duration_minutes :: "int option"
  s_is_active :: bool

record 'n booking =
  b_id :: uuid
  b_service_id :: "uuid option"
  b_therapist_id :: "uuid option"
  b_affiliate_id :: "uuid option"
  b_client_name :: string
  b_client_email :: string
  b_client_phone :: "string option"
  b_scheduled_date :: date
  b_scheduled_time :: time
  b_status :: string
  b_total_amount :: 'n
  b_payment_status :: string
  b_notes :: "string option"
  b_cancellation_reason :: "string option"
  b_created_at :: timestamp
  b_updated_at :: timestamp

record 'n commission =
  c_id :: uuid
  c_affiliate_id :: "uuid option"
  c_booking_id :: "uuid option"
  c_amount :: 'n
  c_percentage :: 'n
  c_status :: string
  c_payment_date :: "timestamp option"
  c_payment_method :: "string option"
  c_payment_reference :: "string option"
  c_notes :: "string option"
  c_created_at :: timestamp
  c_updated_at :: timestamp

text \<open>The store: one list of rows per table, in insertion order.\<close>

record 'n store =
  users :: "user list"
  affiliates :: "'n affiliate list"
  services :: "'n service list"
  bookings :: "'n booking list"
  commissions :: "'n commission list"

section \<open>Statements, store errors and the transaction client\<close>

text \<open>
  One constructor per SQL statement the modelled handlers send, with its parameters.
  \<open>Begin\<close>, \<open>Commit\<close> and \<open>Rollback\<close> are the transaction brackets.
\<close>

text \<open>The parameters of the \<open>WHERE\<close> clause the bookings list assembles.\<close>

record booking_filters =
  f_status :: "string option"
  f_therapist_id :: "uuid option"
  f_affiliate_id :: "uuid option"
  f_date_from :: "date option"
  f_date_to :: "date option"

datatype 'n stmt =
    Begin
  | Commit
  | Rollback
  | SelectService uuid uuid
  | SelectConflict uuid date time
  | SelectAffiliateByCode string
  | InsertBooking "'n booking"
  | SelectCommissionRate uuid
  | InsertCommission "'n commission"
  | SelectBookingsPage booking_filters int int
  | CountBookings booking_filters
  | UpdateConfirm uuid
  | UpdateCancel uuid "string option"
  | SelectBusySlots uuid date
  | SelectUser uuid
  | SelectAuthUser uuid
  | SelectAffiliateByUser uuid
  | InsertAffiliate "'n affiliate"
  | SelectPendingCommission uuid
  | UpdateCommissionPaid uuid "string option" "string option" "string option"
  | UpdateAffiliateTotal 'n "uuid option"

text \<open>
  A JavaScript \<open>Error\<close> carries a message. The tag records where it was raised: by a
  \<open>throw new Error(...)\<close> of a handler, or by the store rejecting a statement. The
  handlers' \<open>catch\<close> blocks read only the message.
\<close>

datatype exn = AppError string | StoreError string

fun error_message :: "exn \<Rightarrow> string" where
  "error_message (AppError m) = m"
| "error_message (StoreError m) = m"

text \<open>
  The connection: the store and the log of statements sent so far. The driver's
  \<open>query\<close> is not code of the repository; whether the store rejects a statement
  (constraint violation, failed cast, lost connection) is the parameter \<open>rejects\<close>,
  which gives the error message if it does.
\<close>

record 'n conn =
  db :: "'n store"
  sent :: "'n stmt list"

type_synonym 'n verdict = "'n store \<Rightarrow> 'n stmt \<Rightarrow> string option"

type_synonym ('n, 'a) tx = "'n conn \<Rightarrow> 'n conn \<times> (exn + 'a)"

definition return_tx :: "'a \<Rightarrow> ('n, 'a) tx" where
  "return_tx v c = (c, Inr v)"

definition throw_tx :: "exn \<Rightarrow> ('n, 'a) tx" where
  "throw_tx e c = (c, Inl e)"

definition bind_tx :: "('n, 'a) tx \<Rightarrow> ('a \<Rightarrow> ('n, 'b) tx) \<Rightarrow> ('n, 'b) tx" where
  "bind_tx m f c = (case m c of (c', Inl e) \<Rightarrow> (c', Inl e) | (c', Inr v) \<Rightarrow> f v c')"

text \<open>
  \<open>query rejects st run\<close>: send statement \<open>st\<close>; it is logged; if the store rejects
  it the call throws, otherwise \<open>run\<close> gives the new store and the returned rows.
\<close>

definition query :: "'n verdict \<Rightarrow> 'n stmt \<Rightarrow> ('n store \<Rightarrow> 'n store \<times> 'r) \<Rightarrow> ('n, 'r) tx" where
  "query rejects st run c =
     (let c1 = c\<lparr>sent := sent c @ [st]\<rparr> in
      case rejects (db c) st of
        Some m \<Rightarrow> (c1, Inl (StoreError m))
      | None \<Rightarrow> (case run (db c) of (d, r) \<Rightarrow> (c1\<lparr>db := d\<rparr>, Inr r)))"

text \<open>
  Modelled from the spec: the helper \<open>transaction\<close> of \<open>config/database\<close>, which is
  not among the sources. The spec says the steps are "wrapped in a database transaction
  for atomicity: a correctness property delivered by the underlying store". So the
  callback runs between \<open>Begin\<close> and \<open>Commit\<close>; if it throws, the store is rolled back
  to what it was at \<open>Begin\<close> and the error is rethrown.
\<close>

definition transaction :: "('n, 'a) tx \<Rightarrow> ('n, 'a) tx" where
  "transaction callback c =
     (case callback (c\<lparr>sent := sent c @ [Begin]\<rparr>) of
        (c', Inr v) \<Rightarrow> (c'\<lparr>sent := sent c' @ [Commit]\<rparr>, Inr v)
      | (c', Inl e) \<Rightarrow> (\<lparr>db = db c, sent = sent c' @ [Rollback]\<rparr>, Inl e))"

section \<open>Responses\<close>

record 'd response =
  http_status :: nat
  success :: bool
  message :: "string option"
  errors :: "string list option"
  data :: "'d option"

definition MSG_INTERNAL :: string where
  "MSG_INTERNAL = ''Erro interno do servidor''"

text \<open>\<open>error.message || 'Erro interno do servidor'\<close>: an empty message is falsy.\<close>

definition message_or_internal :: "exn \<Rightarrow> string" where
  "message_or_internal e = (if error_message e = [] then MSG_INTERNAL else error_message e)"

abbreviation internal_error :: "'d response" where
  "internal_error \<equiv>
     \<lparr>http_status = 500, success = False, message = Some MSG_INTERNAL,
      errors = None, data = None\<rparr>"

section \<open>Booking creation: \<open>POST /bookings\<close>\<close>

record booking_request =
  rq_therapist_id :: uuid
  rq_service_id :: uuid
  rq_client_name :: string
  rq_client_email :: string
  rq_client_phone :: "string option"
  rq_scheduled_date :: date
  rq_scheduled_time :: time
  rq_notes :: "string option"
  rq_affiliate_code :: "string option"

text \<open>What the store generates while the request runs: \<open>NOW()\<close> and the row ids.\<close>

record generated =
  g_now :: timestamp
  g_booking_id :: uuid
  g_commission_id :: uuid

definition MSG_SERVICE_NOT_FOUND :: string where
  "MSG_SERVICE_NOT_FOUND = ''Servi'' @ [CHR 0xE7] @ ''o n'' @ [CHR 0xE3] @ ''o encontrado ou inativo''"

definition MSG_SLOT_TAKEN :: string where
  "MSG_SLOT_TAKEN = ''Hor'' @ [CHR 0xE1] @ ''rio n'' @ [CHR 0xE3] @ ''o dispon'' @ [CHR 0xED] @ ''vel''"

definition MSG_INVALID_DATA :: string where
  "MSG_INVALID_DATA = ''Dados inv'' @ [CHR 0xE1] @ ''lidos''"

definition MSG_BOOKING_CREATED :: string where
  "MSG_BOOKING_CREATED = ''Agendamento criado com sucesso''"

text \<open>\<open>status NOT IN ('cancelled', 'completed')\<close>\<close>

definition occupies :: "string \<Rightarrow> bool" where
  "occupies st = (st \<noteq> ''cancelled'' \<and> st \<noteq> ''completed'')"

definition service_rows :: "uuid \<Rightarrow> uuid \<Rightarrow> 'n store \<Rightarrow> 'n service list" where
  "service_rows sid tid d =
     filter (\<lambda>s. s_id s = sid \<and> s_therapist_id s = Some tid \<and> s_is_active s) (services d)"

definition conflict_rows :: "uuid \<Rightarrow> date \<Rightarrow> time \<Rightarrow> 'n store \<Rightarrow> 'n booking list" where
  "conflict_rows tid dt tm d =
     filter (\<lambda>b. b_therapist_id b = Some tid \<and> b_scheduled_date b = dt
                 \<and> b_scheduled_time b = tm \<and> occupies (b_status b)) (bookings d)"

definition affiliate_rows_by_code :: "string \<Rightarrow> 'n store \<Rightarrow> 'n affiliate list" where
  "affiliate_rows_by_code code d = filter (\<lambda>a. a_referral_code a = code) (affiliates d)"

definition affiliate_rows_by_id :: "uuid \<Rightarrow> 'n store \<Rightarrow> 'n affiliate list" where
  "affiliate_rows_by_id aid d = filter (\<lambda>a. a_id a = aid) (affiliates d)"

text \<open>The row of the \<open>INSERT INTO bookings\<close>; unlisted columns take their defaults.\<close>

definition new_booking :: "generated \<Rightarrow> booking_request \<Rightarrow> uuid option \<Rightarrow> 'n \<Rightarrow> 'n booking" where
  "new_booking g req aff price =
     \<lparr>b_id = g_booking_id g,
      b_service_id = Some (rq_service_id req),
      b_therapist_id = Some (rq_therapist_id req),
      b_affiliate_id = aff,
      b_client_name = rq_client_name req,
      b_client_email = rq_client_email req,
      b_client_phone = rq_client_phone req,
      b_scheduled_date = rq_scheduled_date req,
      b_scheduled_time = rq_scheduled_time req,
      b_status = ''pending'',
      b_total_amount = price,
      b_payment_status = ''pending'',
      b_notes = rq_notes req,
      b_cancellation_reason = None,
      b_created_at = g_now g,
      b_updated_at = g_now g\<rparr>"

text \<open>The row of the \<open>INSERT INTO commissions\<close>.\<close>

definition new_commission :: "generated \<Rightarrow> uuid \<Rightarrow> uuid \<Rightarrow> 'n \<Rightarrow> 'n \<Rightarrow> 'n commission" where
  "new_commission g aid bid amount rate =
     \<lparr>c_id = g_commission_id g,
      c_affiliate_id = Some aid,
      c_booking_id = Some bid,
      c_amount = amount,
      c_percentage = rate,
      c_status = ''pending'',
      c_payment_date = None,
      c_payment_method = None,
      c_payment_reference = None,
      c_notes = None,
      c_created_at = g_now g,
      c_updated_at = g_now g\<rparr>"

definition insert_booking :: "'n booking \<Rightarrow> 'n store \<Rightarrow> 'n store \<times> 'n booking list" where
  "insert_booking b d = (d\<lparr>bookings := bookings d @ [b]\<rparr>, [b])"

definition insert_commission :: "'n commission \<Rightarrow> 'n store \<Rightarrow> 'n store \<times> unit" where
  "insert_commission cm d = (d\<lparr>commissions := commissions d @ [cm]\<rparr>, ())"

text \<open>
  Resolution of the affiliate code. \<open>if (affiliate_code)\<close>: an absent and an empty code
  are falsy; \<open>affiliate_id\<close> stays \<open>null\<close> unless a code was given and a row matches it.
\<close>

definition resolve_affiliate :: "'n verdict \<Rightarrow> string option \<Rightarrow> ('n, uuid option) tx" where
  "resolve_affiliate rejects code =
     (case code of
        None \<Rightarrow> return_tx None
      | Some s \<Rightarrow>
          if s = [] then return_tx None
          else
            bind_tx (query rejects (SelectAffiliateByCode s) (\<lambda>d. (d, affiliate_rows_by_code s d)))
              (\<lambda>affiliateRows.
                 return_tx (case affiliateRows of [] \<Rightarrow> None | a # _ \<Rightarrow> Some (a_id a))))"

text \<open>
  The commission step; \<open>if (affiliate_id)\<close> holds for every non-null id, a UUID's text
  being non-empty.
\<close>

definition create_commission ::
  "'n verdict \<Rightarrow> generated \<Rightarrow> uuid option \<Rightarrow> 'n service \<Rightarrow> 'n booking
     \<Rightarrow> ('n::{times,inverse,numeral}, unit) tx" where
  "create_commission rejects g affiliate_id service booking =
     (case affiliate_id of
        None \<Rightarrow> return_tx ()
      | Some aid \<Rightarrow>
          bind_tx (query rejects (SelectCommissionRate aid) (\<lambda>d. (d, affiliate_rows_by_id aid d)))
            (\<lambda>affiliateRows.
               case affiliateRows of
                 [] \<Rightarrow> return_tx ()
               | a # _ \<Rightarrow>
                   (let commissionRate = a_commission_rate a;
                        commissionAmount = (s_price service * commissionRate) / 100;
                        cm = new_commission g aid (b_id booking) commissionAmount commissionRate
                    in query rejects (InsertCommission cm) (insert_commission cm))))"

text \<open>The callback passed to \<open>transaction\<close>.\<close>

definition create_booking ::
  "'n verdict \<Rightarrow> generated \<Rightarrow> booking_request \<Rightarrow> ('n::{times,inverse,numeral}, 'n booking) tx" where
  "create_booking rejects g req =
     bind_tx (query rejects (SelectService (rq_service_id req) (rq_therapist_id req))
                (\<lambda>d. (d, service_rows (rq_service_id req) (rq_therapist_id req) d)))
       (\<lambda>serviceRows.
          case serviceRows of
            [] \<Rightarrow> throw_tx (AppError MSG_SERVICE_NOT_FOUND)
          | service # _ \<Rightarrow>
     bind_tx (query rejects
                (SelectConflict (rq_therapist_id req) (rq_scheduled_date req) (rq_scheduled_time req))
                (\<lambda>d. (d, conflict_rows (rq_therapist_id req) (rq_scheduled_date req)
                            (rq_scheduled_time req) d)))
       (\<lambda>conflictRows.
          if conflictRows \<noteq> [] then throw_tx (AppError MSG_SLOT_TAKEN)
          else
     bind_tx (resolve_affiliate rejects (rq_affiliate_code req))
       (\<lambda>affiliate_id.
     bind_tx (let b = new_booking g req affiliate_id (s_price service)
              in query rejects (InsertBooking b) (insert_booking b))
       (\<lambda>bookingRows.
          let booking = hd bookingRows in
     bind_tx (create_commission rejects g affiliate_id service booking)
       (\<lambda>_. return_tx booking)))))"

text \<open>
  The handler after \<open>authenticateToken\<close> has let the request through. The rule list
  of express-validator is not modelled: \<open>verrors\<close> is what \<open>validationResult(req)\<close>
  holds. The result is the connection afterwards and the response.
\<close>

definition post_booking ::
  "'n verdict \<Rightarrow> generated \<Rightarrow> string list \<Rightarrow> booking_request \<Rightarrow> 'n conn
     \<Rightarrow> 'n conn \<times> ('n::{times,inverse,numeral}) booking response" where
  "post_booking rejects g verrors req c =
     (if verrors \<noteq> [] then
        (c, \<lparr>http_status = 400, success = False, message = Some MSG_INVALID_DATA,
             errors = Some verrors, data = None\<rparr>)
      else
        case transaction (create_booking rejects g req) c of
          (c', Inr result) \<Rightarrow>
            (c', \<lparr>http_status = 201, success = True, message = Some MSG_BOOKING_CREATED,
                  errors = None, data = Some result\<rparr>)
        | (c', Inl error) \<Rightarrow>
            (c', \<lparr>http_status = 500, success = False,
                  message = Some (message_or_internal error),
                  errors = None, data = None\<rparr>))"

subsection \<open>The steps of booking creation, as the specification lists them\<close>

text \<open>
  The specification's reading of the transaction, as a function of the request and of
  the store at the start: service lookup; conflict detection; resolution of a supplied
  affiliate code; the booking insert; and, for a resolved affiliate, the commission
  insert (which first reads the affiliate's rate). The list stops where the
  transaction throws.
\<close>

definition spec_affiliate :: "string option \<Rightarrow> 'n store \<Rightarrow> uuid option" where
  "spec_affiliate code d =
     (case code of
        None \<Rightarrow> None
      | Some s \<Rightarrow>
          if s = [] then None
          else (case affiliate_rows_by_code s d of [] \<Rightarrow> None | a # _ \<Rightarrow> Some (a_id a)))"

definition affiliate_steps :: "string option \<Rightarrow> 'n stmt list" where
  "affiliate_steps code =
     (case code of None \<Rightarrow> [] | Some s \<Rightarrow> if s = [] then [] else [SelectAffiliateByCode s])"

definition spec_commission ::
  "generated \<Rightarrow> uuid \<Rightarrow> 'n service \<Rightarrow> 'n affiliate \<Rightarrow> ('n::{times,inverse,numeral}) commission" where
  "spec_commission g aid service a =
     new_commission g aid (g_booking_id g)
       ((s_price service * a_commission_rate a) / 100) (a_commission_rate a)"

definition commission_steps ::
  "generated \<Rightarrow> uuid option \<Rightarrow> 'n service \<Rightarrow> 'n store \<Rightarrow> ('n::{times,inverse,numeral}) stmt list" where
  "commission_steps g aff service d =
     (case aff of
        None \<Rightarrow> []
      | Some aid \<Rightarrow>
          SelectCommissionRate aid #
          (case affiliate_rows_by_id aid d of
             [] \<Rightarrow> []
           | a # _ \<Rightarrow> [InsertCommission (spec_commission g aid service a)]))"

definition booking_plan ::
  "generated \<Rightarrow> booking_request \<Rightarrow> 'n store \<Rightarrow> ('n::{times,inverse,numeral}) stmt list" where
  "booking_plan g req d =
     SelectService (rq_service_id req) (rq_therapist_id req) #
     (case service_rows (rq_service_id req) (rq_therapist_id req) d of
        [] \<Rightarrow> []
      | service # _ \<Rightarrow>
          SelectConflict (rq_therapist_id req) (rq_scheduled_date req) (rq_scheduled_time req) #
          (if conflict_rows (rq_therapist_id req) (rq_scheduled_date req)
                (rq_scheduled_time req) d \<noteq> [] then []
           else
             affiliate_steps (rq_affiliate_code req) @
             [InsertBooking
                (new_booking g req (spec_affiliate (rq_affiliate_code req) d) (s_price service))] @
             commission_steps g (spec_affiliate (rq_affiliate_code req) d) service d))"

text \<open>The commission rows the transaction adds for a resolved affiliate.\<close>

definition commission_rows ::
  "generated \<Rightarrow> uuid option \<Rightarrow> 'n service \<Rightarrow> 'n store \<Rightarrow> ('n::{times,inverse,numeral}) commission list" where
  "commission_rows g aff service d =
     (case aff of
        None \<Rightarrow> []
      | Some aid \<Rightarrow>
          (case affiliate_rows_by_id aid d of
             [] \<Rightarrow> []
           | a # _ \<Rightarrow> [spec_commission g aid service a]))"


text \<open>An existing booking that holds the slot a request asks for.\<close>

definition holds_slot :: "booking_request \<Rightarrow> 'n booking \<Rightarrow> bool" where
  "holds_slot req b =
     (b_therapist_id b = Some (rq_therapist_id req)
      \<and> b_scheduled_date b = rq_scheduled_date req
      \<and> b_scheduled_time b = rq_scheduled_time req
      \<and> b_status b \<noteq> ''cancelled'' \<and> b_status b \<noteq> ''completed'')"

section \<open>Example data\<close>

definition ex_user :: user where
  "ex_user = \<lparr>u_id = 30, u_name = ''Ana'', u_email = ''ana@example.com'',
              u_role = ''affiliate'', u_is_active = True\<rparr>"

definition ex_affiliate :: "rat affiliate" where
  "ex_affiliate =
     \<lparr>a_id = 20, a_user_id = Some 30, a_referral_code = ''ANA2025'',
      a_commission_rate = 15, a_total_referrals = 0, a_total_commission = 0,
      a_is_active = True, a_created_at = 0, a_updated_at = 0\<rparr>"

definition ex_service :: "rat service" where
  "ex_service =
     \<lparr>s_id = 1, s_therapist_id = Some 10, s_name = ''Reiki'', s_price = 200,
      s_duration_minutes = Some 60, s_is_active = True\<rparr>"

text \<open>A confirmed booking of therapist 10 on day 100 at 09:00.\<close>

definition ex_booking :: "rat booking" where
  "ex_booking =
     \<lparr>b_id = 41, b_service_id = Some 1, b_therapist_id = Some 10, b_affiliate_id = None,
      b_client_name = ''Bia'', b_client_email = ''bia@example.com'', b_client_phone = None,
      b_scheduled_date = 100, b_scheduled_time = 32400, b_status = ''confirmed'',
      b_total_amount = 200, b_payment_status = ''pending'', b_notes = None,
      b_cancellation_reason = None, b_created_at = 0, b_updated_at = 0\<rparr>"

definition ex_store :: "rat store" where
  "ex_store =
     \<lparr>users = [ex_user], affiliates = [ex_affiliate], services = [ex_service],
      bookings = [ex_booking], commissions = []\<rparr>"

definition ex_conn :: "rat conn" where
  "ex_conn = \<lparr>db = ex_store, sent = []\<rparr>"

definition ex_generated :: generated where
  "ex_generated = \<lparr>g_now = 1000, g_booking_id = 42, g_commission_id = 50\<rparr>"

text \<open>A request for 10:00 with the affiliate's code; the same at 09:00; and with an unknown code.\<close>

definition ex_request :: booking_request where
  "ex_request =
     \<lparr>rq_therapist_id = 10, rq_service_id = 1, rq_client_name = ''Caio'',
      rq_client_email = ''caio@example.com'', rq_client_phone = None,
      rq_scheduled_date = 100, rq_scheduled_time = 36000, rq_notes = None,
      rq_affiliate_code = Some ''ANA2025''\<rparr>"

definition ex_request_taken :: booking_request where
  "ex_request_taken = ex_request\<lparr>rq_scheduled_time := 32400\<rparr>"

definition ex_request_unknown_code :: booking_request where
  "ex_request_unknown_code = ex_request\<lparr>rq_affiliate_code := Some ''NOCODE''\<rparr>"

text \<open>A store that rejects nothing.\<close>

definition accepts_all :: "'n verdict" where
  "accepts_all d st = None"

text \<open>A store that rejects every commission insert, as a violated constraint would.\<close>

definition rejects_commission :: "'n verdict" where
  "rejects_commission d st =
     (case st of InsertCommission cm \<Rightarrow> Some ''numeric field overflow'' | _ \<Rightarrow> None)"

text \<open>The rows the example request creates.\<close>

definition ex_new_booking :: "rat booking" where
  "ex_new_booking =
     \<lparr>b_id = 42, b_service_id = Some 1, b_therapist_id = Some 10, b_affiliate_id = Some 20,
      b_client_name = ''Caio'', b_client_email = ''caio@example.com'', b_client_phone = None,
      b_scheduled_date = 100, b_scheduled_time = 36000, b_status = ''pending'',
      b_total_amount = 200, b_payment_status = ''pending'', b_notes = None,
      b_cancellation_reason = None, b_created_at = 1000, b_updated_at = 1000\<rparr>"

definition ex_new_commission :: "rat commission" where
  "ex_new_commission =
     \<lparr>c_id = 50, c_affiliate_id = Some 20, c_booking_id = Some 42, c_amount = 30,
      c_percentage = 15, c_status = ''pending'', c_payment_date = None,
      c_payment_method = None, c_payment_reference = None, c_notes = None,
      c_created_at = 1000, c_updated_at = 1000\<rparr>"

definition ex_conn_created :: "rat conn" where
  "ex_conn_created =
     \<lparr>db = ex_store\<lparr>bookings := [ex_booking, ex_new_booking],
                      commissions := [ex_new_commission]\<rparr>,
      sent = [Begin, SelectService 1 10, SelectConflict 10 100 36000,
              SelectAffiliateByCode ''ANA2025'', InsertBooking ex_new_booking,
              SelectCommissionRate 20, InsertCommission ex_new_commission, Commit]\<rparr>"

definition ex_response_created :: "rat booking response" where
  "ex_response_created =
     \<lparr>http_status = 201, success = True, message = Some MSG_BOOKING_CREATED,
      errors = None, data = Some ex_new_booking\<rparr>"

definition ex_conn_taken :: "rat conn" where
  "ex_conn_taken =
     \<lparr>db = ex_store,
      sent = [Begin, SelectService 1 10, SelectConflict 10 100 32400, Rollback]\<rparr>"

definition ex_response_taken :: "rat booking response" where
  "ex_response_taken =
     \<lparr>http_status = 500, success = False, message = Some MSG_SLOT_TAKEN,
      errors = None, data = None\<rparr>"

definition ex_conn_rolled_back :: "rat conn" where
  "ex_conn_rolled_back =
     \<lparr>db = ex_store,
      sent = [Begin, SelectService 1 10, SelectConflict 10 100 36000,
              SelectAffiliateByCode ''ANA2025'', InsertBooking ex_new_booking,
              SelectCommissionRate 20, InsertCommission ex_new_commission, Rollback]\<rparr>"

definition ex_response_rolled_back :: "rat booking response" where
  "ex_response_rolled_back =
     \<lparr>http_status = 500, success = False, message = Some ''numeric field overflow'',
      errors = None, data = None\<rparr>"

definition ex_new_booking_plain :: "rat booking" where
  "ex_new_booking_plain = ex_new_booking\<lparr>b_affiliate_id := None\<rparr>"

definition ex_conn_plain :: "rat conn" where
  "ex_conn_plain =
     \<lparr>db = ex_store\<lparr>bookings := [ex_booking, ex_new_booking_plain]\<rparr>,
      sent = [Begin, SelectService 1 10, SelectConflict 10 100 36000,
              SelectAffiliateByCode ''NOCODE'', InsertBooking ex_new_booking_plain, Commit]\<rparr>"

definition ex_response_plain :: "rat booking response" where
  "ex_response_plain =
     \<lparr>http_status = 201, success = True, message = Some MSG_BOOKING_CREATED,
      errors = None, data = Some ex_new_booking_plain\<rparr>"

section \<open>Confirming and cancelling: \<open>PUT /bookings/:id/confirm\<close>, \<open>PUT /bookings/:id/cancel\<close>\<close>

text \<open>
  An \<open>UPDATE ... WHERE cond RETURNING *\<close>: the rows that satisfy the condition are
  changed in place and returned as changed. The trigger of the schema sets
  \<open>updated_at\<close> to \<open>NOW()\<close>, as the statements do themselves.
\<close>

definition update_where ::
  "('n booking \<Rightarrow> bool) \<Rightarrow> ('n booking \<Rightarrow> 'n booking) \<Rightarrow> 'n store \<Rightarrow> 'n store \<times> 'n booking list" where
  "update_where cond upd d =
     (d\<lparr>bookings := map (\<lambda>b. if cond b then upd b else b) (bookings d)\<rparr>,
      map upd (filter cond (bookings d)))"

definition MSG_CONFIRM_NOT_FOUND :: string where
  "MSG_CONFIRM_NOT_FOUND =
     ''Agendamento n'' @ [CHR 0xE3] @ ''o encontrado ou j'' @ [CHR 0xE1] @ '' processado''"

definition MSG_CONFIRMED :: string where
  "MSG_CONFIRMED = ''Agendamento confirmado com sucesso''"

definition MSG_CANCEL_NOT_FOUND :: string where
  "MSG_CANCEL_NOT_FOUND =
     ''Agendamento n'' @ [CHR 0xE3] @ ''o encontrado ou n'' @ [CHR 0xE3] @ ''o pode ser cancelado''"

definition MSG_CANCELLED :: string where
  "MSG_CANCELLED = ''Agendamento cancelado com sucesso''"

text \<open>\<open>WHERE id = $1 AND status = 'pending'\<close>\<close>

definition confirmable :: "uuid \<Rightarrow> 'n booking \<Rightarrow> bool" where
  "confirmable bid b = (b_id b = bid \<and> b_status b = ''pending'')"

text \<open>\<open>WHERE id = $1 AND status IN ('pending', 'confirmed')\<close>\<close>

definition cancellable :: "uuid \<Rightarrow> 'n booking \<Rightarrow> bool" where
  "cancellable bid b = (b_id b = bid \<and> (b_status b = ''pending'' \<or> b_status b = ''confirmed''))"

definition set_confirmed :: "timestamp \<Rightarrow> 'n booking \<Rightarrow> 'n booking" where
  "set_confirmed now b = b\<lparr>b_status := ''confirmed'', b_updated_at := now\<rparr>"

definition set_cancelled :: "timestamp \<Rightarrow> string option \<Rightarrow> 'n booking \<Rightarrow> 'n booking" where
  "set_cancelled now reason b =
     b\<lparr>b_status := ''cancelled'', b_cancellation_reason := reason, b_updated_at := now\<rparr>"

text \<open>
  The handlers outside a transaction send their statements through the pool; their
  \<open>catch\<close> answers every thrown error with \<open>internal_error\<close>.
\<close>

definition confirm_booking ::
  "'n verdict \<Rightarrow> timestamp \<Rightarrow> uuid \<Rightarrow> 'n conn \<Rightarrow> 'n conn \<times> 'n booking response" where
  "confirm_booking rejects now bid c =
     (case query rejects (UpdateConfirm bid) (update_where (confirmable bid) (set_confirmed now)) c of
        (c', Inl error) \<Rightarrow> (c', internal_error)
      | (c', Inr rows) \<Rightarrow>
          (case rows of
             [] \<Rightarrow>
               (c', \<lparr>http_status = 404, success = False, message = Some MSG_CONFIRM_NOT_FOUND,
                     errors = None, data = None\<rparr>)
           | row # _ \<Rightarrow>
               (c', \<lparr>http_status = 200, success = True, message = Some MSG_CONFIRMED,
                     errors = None, data = Some row\<rparr>)))"

definition cancel_booking ::
  "'n verdict \<Rightarrow> timestamp \<Rightarrow> uuid \<Rightarrow> string option \<Rightarrow> 'n conn \<Rightarrow> 'n conn \<times> 'n booking response" where
  "cancel_booking rejects now bid reason c =
     (case query rejects (UpdateCancel bid reason)
             (update_where (cancellable bid) (set_cancelled now reason)) c of
        (c', Inl error) \<Rightarrow> (c', internal_error)
      | (c', Inr rows) \<Rightarrow>
          (case rows of
             [] \<Rightarrow>
               (c', \<lparr>http_status = 404, success = False, message = Some MSG_CANCEL_NOT_FOUND,
                     errors = None, data = None\<rparr>)
           | row # _ \<Rightarrow>
               (c', \<lparr>http_status = 200, success = True, message = Some MSG_CANCELLED,
                     errors = None, data = Some row\<rparr>)))"

text \<open>A cancelled and a completed booking.\<close>

definition ex_booking_cancelled :: "rat booking" where
  "ex_booking_cancelled = ex_booking\<lparr>b_status := ''cancelled''\<rparr>"

definition ex_booking_completed :: "rat booking" where
  "ex_booking_completed = ex_booking\<lparr>b_id := 43, b_status := ''completed''\<rparr>"

definition ex_conn_closed :: "rat conn" where
  "ex_conn_closed =
     \<lparr>db = ex_store\<lparr>bookings := [ex_booking_cancelled, ex_booking_completed]\<rparr>, sent = []\<rparr>"

definition ex_booking_pending :: "rat booking" where
  "ex_booking_pending = ex_booking\<lparr>b_id := 44, b_status := ''pending''\<rparr>"

definition ex_conn_open :: "rat conn" where
  "ex_conn_open = \<lparr>db = ex_store\<lparr>bookings := [ex_booking_pending, ex_booking]\<rparr>, sent = []\<rparr>"

section \<open>Listing: \<open>GET /bookings\<close>\<close>

subsection \<open>Integer texts: the validator's \<open>isInt\<close> and JavaScript's \<open>parseInt\<close>\<close>


definition digit_value :: "char \<Rightarrow> nat" where
  "digit_value ch = of_char ch - 48"











subsection \<open>The handler\<close>
















section \<open>Availability: \<open>GET /therapists/:id/availability\<close>\<close>

text \<open>
  The busy rows: \<open>scheduled_time\<close> of each occupying booking of the therapist on the
  date, with \<open>duration_minutes\<close> of the service joined to it (an inner join: a
  booking without a service row gives no busy row).
\<close>

definition busy_slots :: "uuid \<Rightarrow> date \<Rightarrow> 'n store \<Rightarrow> (time \<times> int option) list" where
  "busy_slots tid dt d =
     concat (map (\<lambda>b. map (\<lambda>s. (b_scheduled_time b, s_duration_minutes s))
                          (filter (\<lambda>s. b_service_id b = Some (s_id s)) (services d)))
                 (filter (\<lambda>b. b_therapist_id b = Some tid \<and> b_scheduled_date b = dt
                              \<and> occupies (b_status b)) (bookings d)))"

text \<open>\<open>hour.toString().padStart(2, '0')\<close>, for the decimal text of a natural number.\<close>

definition digit_char :: "nat \<Rightarrow> char" where
  "digit_char n = ''0123456789'' ! n"

fun to_string :: "nat \<Rightarrow> string" where
  "to_string n =
     (if n < 10 then [digit_char n] else to_string (n div 10) @ [digit_char (n mod 10)])"

definition padStart2 :: "string \<Rightarrow> string" where
  "padStart2 s = replicate (2 - length s) (CHR ''0'') @ s"

text \<open>The loop \<open>for (let hour = 8; hour < 18; hour++)\<close> pushes two slots per hour.\<close>

definition defaultSlots :: "string list" where
  "defaultSlots =
     concat (map (\<lambda>hour. [padStart2 (to_string hour) @ '':00'',
                          padStart2 (to_string hour) @ '':30'']) [8..<18])"

text \<open>
  \<open>new Date(`2000-01-01T${slot}`)\<close> for a text \<open>HH:MM\<close>, as seconds after the local
  midnight of that day. A \<open>TIME\<close> value read from the store is already in seconds;
  \<open>setMinutes(getMinutes() + m)\<close> adds \<open>60 * m\<close> seconds, and \<open>null\<close> adds nothing.
\<close>

definition slot_seconds :: "string \<Rightarrow> int" where
  "slot_seconds slot =
     (case slot of
        [h1, h2, _, m1, m2] \<Rightarrow>
          int (((digit_value h1 * 10 + digit_value h2) * 60
                + digit_value m1 * 10 + digit_value m2) * 60)
      | _ \<Rightarrow> 0)"

definition collides :: "string \<Rightarrow> time \<times> int option \<Rightarrow> bool" where
  "collides slot busy =
     (let busyStart = fst busy;
          busyEnd = busyStart + 60 * (case snd busy of None \<Rightarrow> 0 | Some m \<Rightarrow> m);
          slotTime = slot_seconds slot;
          slotEnd = slotTime + 60 * 60
      in slotTime < busyEnd \<and> slotEnd > busyStart)"

definition availableSlots :: "(time \<times> int option) list \<Rightarrow> string list" where
  "availableSlots busySlots =
     filter (\<lambda>slot. \<not> list_ex (\<lambda>busy. collides slot busy) busySlots) defaultSlots"

record availability =
  av_date :: date
  av_available_slots :: "string list"
  av_busy_slots :: "time list"

definition MSG_DATE_REQUIRED :: string where
  "MSG_DATE_REQUIRED = ''Data '' @ [CHR 0xE9] @ '' obrigat'' @ [CHR 0xF3] @ ''ria''"

text \<open>\<open>date_param\<close> is \<open>None\<close> for a missing or empty \<open>date\<close>.\<close>

definition get_availability ::
  "'n verdict \<Rightarrow> uuid \<Rightarrow> date option \<Rightarrow> 'n conn \<Rightarrow> 'n conn \<times> availability response" where
  "get_availability rejects tid date_param c =
     (case date_param of
        None \<Rightarrow>
          (c, \<lparr>http_status = 400, success = False, message = Some MSG_DATE_REQUIRED,
               errors = None, data = None\<rparr>)
      | Some dt \<Rightarrow>
          (case query rejects (SelectBusySlots tid dt) (\<lambda>d. (d, busy_slots tid dt d)) c of
             (c', Inl error) \<Rightarrow> (c', internal_error)
           | (c', Inr busySlots) \<Rightarrow>
               (c', \<lparr>http_status = 200, success = True, message = None, errors = None,
                     data = Some \<lparr>av_date = dt,
                                  av_available_slots = availableSlots busySlots,
                                  av_busy_slots = map fst busySlots\<rparr>\<rparr>)))"

text \<open>
  The specification's grid: twenty half-hour slots from 08:00 to 17:30, and the start
  of the \<open>k\<close>-th one in seconds after midnight.
\<close>

definition slot_grid :: "string list" where
  "slot_grid =
     [''08:00'', ''08:30'', ''09:00'', ''09:30'', ''10:00'', ''10:30'', ''11:00'', ''11:30'',
      ''12:00'', ''12:30'', ''13:00'', ''13:30'', ''14:00'', ''14:30'', ''15:00'', ''15:30'',
      ''16:00'', ''16:30'', ''17:00'', ''17:30'']"

definition grid_start :: "nat \<Rightarrow> int" where
  "grid_start k = (8 * 60 + 30 * int k) * 60"

text \<open>The availability of therapist 10 on day 100, when 09:00 is booked for an hour.\<close>

definition ex_availability :: availability where
  "ex_availability =
     \<lparr>av_date = 100,
      av_available_slots =
        [''08:00'', ''10:00'', ''10:30'', ''11:00'', ''11:30'', ''12:00'', ''12:30'', ''13:00'',
         ''13:30'', ''14:00'', ''14:30'', ''15:00'', ''15:30'', ''16:00'', ''16:30'', ''17:00'',
         ''17:30''],
      av_busy_slots = [32400]\<rparr>"

section \<open>The other transactional handlers: \<open>POST /affiliates\<close>, \<open>POST /commissions/:id/pay\<close>\<close>















subsection \<open>Creating an affiliate\<close>












subsection \<open>Paying a commission\<close>

















section \<open>The schema: the \<open>CREATE TABLE\<close> statements of the migration\<close>

text \<open>
  The tables as data: every column with its type and its constraints, in the order
  of the migration, and what they mean for a row and for a table.
\<close>

datatype sql_type =
  UUID | VARCHAR nat | TEXT | DECIMAL nat nat | INTEGER | BOOLEAN | DATE | TIME | TIMESTAMP

datatype on_delete = CASCADE | SET_NULL

datatype sql_constraint =
    PRIMARY_KEY
  | UNIQUE
  | NOT_NULL
  | DEFAULT string
  | CHECK_IN "string list"
  | REFERENCES string string on_delete

record column =
  col_name :: string
  col_type :: sql_type
  col_constraints :: "sql_constraint list"

definition users_table :: "column list" where
  "users_table =
     [\<lparr>col_name = ''id'', col_type = UUID,
        col_constraints = [PRIMARY_KEY, DEFAULT ''gen_random_uuid()'']\<rparr>,
      \<lparr>col_name = ''name'', col_type = VARCHAR 255, col_constraints = [NOT_NULL]\<rparr>,
      \<lparr>col_name = ''email'', col_type = VARCHAR 255, col_constraints = [UNIQUE, NOT_NULL]\<rparr>,
      \<lparr>col_name = ''password_hash'', col_type = VARCHAR 255, col_constraints = [NOT_NULL]\<rparr>,
      \<lparr>col_name = ''role'', col_type = VARCHAR 50,
        col_constraints = [DEFAULT ''affiliate'', CHECK_IN [''admin'', ''therapist'', ''affiliate'']]\<rparr>,
      \<lparr>col_name = ''is_active'', col_type = BOOLEAN, col_constraints = [DEFAULT ''TRUE'']\<rparr>,
      \<lparr>col_name = ''is_master'', col_type = BOOLEAN, col_constraints = [DEFAULT ''FALSE'']\<rparr>,
      \<lparr>col_name = ''created_at'', col_type = TIMESTAMP, col_constraints = [DEFAULT ''NOW()'']\<rparr>,
      \<lparr>col_name = ''updated_at'', col_type = TIMESTAMP, col_constraints = [DEFAULT ''NOW()'']\<rparr>]"

definition affiliates_table :: "column list" where
  "affiliates_table =
     [\<lparr>col_name = ''id'', col_type = UUID,
        col_constraints = [PRIMARY_KEY, DEFAULT ''gen_random_uuid()'']\<rparr>,
      \<lparr>col_name = ''user_id'', col_type = UUID,
        col_constraints = [REFERENCES ''users'' ''id'' CASCADE]\<rparr>,
      \<lparr>col_name = ''referral_code'', col_type = VARCHAR 20,
        col_constraints = [UNIQUE, NOT_NULL]\<rparr>,
      \<lparr>col_name = ''commission_rate'', col_type = DECIMAL 5 2,
        col_constraints = [DEFAULT ''15.00'']\<rparr>,
      \<lparr>col_name = ''total_referrals'', col_type = INTEGER, col_constraints = [DEFAULT ''0'']\<rparr>,
      \<lparr>col_name = ''total_commission'', col_type = DECIMAL 10 2,
        col_constraints = [DEFAULT ''0'']\<rparr>,
      \<lparr>col_name = ''is_active'', col_type = BOOLEAN, col_constraints = [DEFAULT ''TRUE'']\<rparr>,
      \<lparr>col_name = ''created_at'', col_type = TIMESTAMP, col_constraints = [DEFAULT ''NOW()'']\<rparr>,
      \<lparr>col_name = ''updated_at'', col_type = TIMESTAMP, col_constraints = [DEFAULT ''NOW()'']\<rparr>]"

definition therapists_table :: "column list" where
  "therapists_table =
     [\<lparr>col_name = ''id'', col_type = UUID,
        col_constraints = [PRIMARY_KEY, DEFAULT ''gen_random_uuid()'']\<rparr>,
      \<lparr>col_name = ''user_id'', col_type = UUID,
        col_constraints = [REFERENCES ''users'' ''id'' CASCADE]\<rparr>,
      \<lparr>col_name = ''specialty'', col_type = VARCHAR 255, col_constraints = [NOT_NULL]\<rparr>,
      \<lparr>col_name = ''bio'', col_type = TEXT, col_constraints = []\<rparr>,
      \<lparr>col_name = ''commission_rate'', col_type = DECIMAL 5 2,
        col_constraints = [DEFAULT ''30.00'']\<rparr>,
      \<lparr>col_name = ''is_available'', col_type = BOOLEAN, col_constraints = [DEFAULT ''TRUE'']\<rparr>,
      \<lparr>col_name = ''created_at'', col_type = TIMESTAMP, col_constraints = [DEFAULT ''NOW()'']\<rparr>,
      \<lparr>col_name = ''updated_at'', col_type = TIMESTAMP, col_constraints = [DEFAULT ''NOW()'']\<rparr>]"

definition services_table :: "column list" where
  "services_table =
     [\<lparr>col_name = ''id'', col_type = UUID,
        col_constraints = [PRIMARY_KEY, DEFAULT ''gen_random_uuid()'']\<rparr>,
      \<lparr>col_name = ''therapist_id'', col_type = UUID,
        col_constraints = [REFERENCES ''therapists'' ''id'' CASCADE]\<rparr>,
      \<lparr>col_name = ''name'', col_type = VARCHAR 255, col_constraints = [NOT_NULL]\<rparr>,
      \<lparr>col_name = ''description'', col_type = TEXT, col_constraints = []\<rparr>,
      \<lparr>col_name = ''price'', col_type = DECIMAL 10 2, col_constraints = [NOT_NULL]\<rparr>,
      \<lparr>col_name = ''duration_minutes'', col_type = INTEGER, col_constraints = [DEFAULT ''60'']\<rparr>,
      \<lparr>col_name = ''is_active'', col_type = BOOLEAN, col_constraints = [DEFAULT ''TRUE'']\<rparr>,
      \<lparr>col_name = ''created_at'', col_type = TIMESTAMP, col_constraints = [DEFAULT ''NOW()'']\<rparr>,
      \<lparr>col_name = ''updated_at'', col_type = TIMESTAMP, col_constraints = [DEFAULT ''NOW()'']\<rparr>]"

definition bookings_table :: "column list" where
  "bookings_table =
     [\<lparr>col_name = ''id'', col_type = UUID,
        col_constraints = [PRIMARY_KEY, DEFAULT ''gen_random_uuid()'']\<rparr>,
      \<lparr>col_name = ''service_id'', col_type = UUID,
        col_constraints = [REFERENCES ''services'' ''id'' SET_NULL]\<rparr>,
      \<lparr>col_name = ''therapist_id'', col_type = UUID,
        col_constraints = [REFERENCES ''therapists'' ''id'' SET_NULL]\<rparr>,
      \<lparr>col_name = ''affiliate_id'', col_type = UUID,
        col_constraints = [REFERENCES ''affiliates'' ''id'' SET_NULL]\<rparr>,
      \<lparr>col_name = ''client_name'', col_type = VARCHAR 255, col_constraints = [NOT_NULL]\<rparr>,
      \<lparr>col_name = ''client_email'', col_type = VARCHAR 255, col_constraints = [NOT_NULL]\<rparr>,
      \<lparr>col_name = ''client_phone'', col_type = VARCHAR 20, col_constraints = []\<rparr>,
      \<lparr>col_name = ''scheduled_date'', col_type = DATE, col_constraints = [NOT_NULL]\<rparr>,
      \<lparr>col_name = ''scheduled_time'', col_type = TIME, col_constraints = [NOT_NULL]\<rparr>,
      \<lparr>col_name = ''status'', col_type = VARCHAR 50,
        col_constraints =
          [DEFAULT ''pending'', CHECK_IN [''pending'', ''confirmed'', ''cancelled'', ''completed'']]\<rparr>,
      \<lparr>col_name = ''total_amount'', col_type = DECIMAL 10 2, col_constraints = [NOT_NULL]\<rparr>,
      \<lparr>col_name = ''payment_status'', col_type = VARCHAR 50,
        col_constraints =
          [DEFAULT ''pending'', CHECK_IN [''pending'', ''paid'', ''cancelled'', ''refunded'']]\<rparr>,
      \<lparr>col_name = ''notes'', col_type = TEXT, col_constraints = []\<rparr>,
      \<lparr>col_name = ''cancellation_reason'', col_type = TEXT, col_constraints = []\<rparr>,
      \<lparr>col_name = ''created_at'', col_type = TIMESTAMP, col_constraints = [DEFAULT ''NOW()'']\<rparr>,
      \<lparr>col_name = ''updated_at'', col_type = TIMESTAMP, col_constraints = [DEFAULT ''NOW()'']\<rparr>]"

definition commissions_table :: "column list" where
  "commissions_table =
     [\<lparr>col_name = ''id'', col_type = UUID,
        col_constraints = [PRIMARY_KEY, DEFAULT ''gen_random_uuid()'']\<rparr>,
      \<lparr>col_name = ''affiliate_id'', col_type = UUID,
        col_constraints = [REFERENCES ''affiliates'' ''id'' CASCADE]\<rparr>,
      \<lparr>col_name = ''booking_id'', col_type = UUID,
        col_constraints = [REFERENCES ''bookings'' ''id'' CASCADE]\<rparr>,
      \<lparr>col_name = ''amount'', col_type = DECIMAL 10 2, col_constraints = [NOT_NULL]\<rparr>,
      \<lparr>col_name = ''percentage'', col_type = DECIMAL 5 2, col_constraints = [NOT_NULL]\<rparr>,
      \<lparr>col_name = ''status'', col_type = VARCHAR 50,
        col_constraints = [DEFAULT ''pending'', CHECK_IN [''pending'', ''paid'', ''cancelled'']]\<rparr>,
      \<lparr>col_name = ''payment_date'', col_type = TIMESTAMP, col_constraints = []\<rparr>,
      \<lparr>col_name = ''payment_method'', col_type = VARCHAR 100, col_constraints = []\<rparr>,
      \<lparr>col_name = ''payment_reference'', col_type = VARCHAR 255, col_constraints = []\<rparr>,
      \<lparr>col_name = ''notes'', col_type = TEXT, col_constraints = []\<rparr>,
      \<lparr>col_name = ''created_at'', col_type = TIMESTAMP, col_constraints = [DEFAULT ''NOW()'']\<rparr>,
      \<lparr>col_name = ''updated_at'', col_type = TIMESTAMP, col_constraints = [DEFAULT ''NOW()'']\<rparr>]"

definition licenses_table :: "column list" where
  "licenses_table =
     [\<lparr>col_name = ''id'', col_type = UUID,
        col_constraints = [PRIMARY_KEY, DEFAULT ''gen_random_uuid()'']\<rparr>,
      \<lparr>col_name = ''serial_key'', col_type = VARCHAR 50, col_constraints = [UNIQUE, NOT_NULL]\<rparr>,
      \<lparr>col_name = ''license_type'', col_type = VARCHAR 50, col_constraints = [NOT_NULL]\<rparr>,
      \<lparr>col_name = ''status'', col_type = VARCHAR 50,
        col_constraints =
          [DEFAULT ''pending'', CHECK_IN [''pending'', ''active'', ''expired'', ''revoked'']]\<rparr>,
      \<lparr>col_name = ''activated_by'', col_type = UUID,
        col_constraints = [REFERENCES ''users'' ''id'' SET_NULL]\<rparr>,
      \<lparr>col_name = ''activated_at'', col_type = TIMESTAMP, col_constraints = []\<rparr>,
      \<lparr>col_name = ''expires_at'', col_type = TIMESTAMP, col_constraints = []\<rparr>,
      \<lparr>col_name = ''max_users'', col_type = INTEGER, col_constraints = [DEFAULT ''1'']\<rparr>,
      \<lparr>col_name = ''current_users'', col_type = INTEGER, col_constraints = [DEFAULT ''0'']\<rparr>,
      \<lparr>col_name = ''created_at'', col_type = TIMESTAMP, col_constraints = [DEFAULT ''NOW()'']\<rparr>,
      \<lparr>col_name = ''updated_at'', col_type = TIMESTAMP, col_constraints = [DEFAULT ''NOW()'']\<rparr>]"

subsection \<open>What a table accepts\<close>

datatype sql_value =
    Null
  | VUuid uuid
  | VText string
  | VNum rat
  | VInt int
  | VBool bool
  | VDate date
  | VTime time
  | VTimestamp timestamp

text \<open>
  A value of \<open>DECIMAL(p, s)\<close> has at most \<open>s\<close> decimal places and is below
  \<open>10 ^ (p - s)\<close> in absolute value; a value of \<open>VARCHAR(n)\<close> has at most \<open>n\<close>
  characters. \<open>NULL\<close> is of every type.
\<close>

fun has_type :: "sql_type \<Rightarrow> sql_value \<Rightarrow> bool" where
  "has_type t Null = True"
| "has_type UUID (VUuid u) = True"
| "has_type (VARCHAR n) (VText s) = (length s \<le> n)"
| "has_type TEXT (VText s) = True"
| "has_type (DECIMAL p s) (VNum x) =
     (x * 10 ^ s = of_int \<lfloor>x * 10 ^ s\<rfloor> \<and> \<bar>x\<bar> < 10 ^ (p - s))"
| "has_type INTEGER (VInt i) = True"
| "has_type BOOLEAN (VBool b) = True"
| "has_type DATE (VDate d) = True"
| "has_type TIME (VTime t) = True"
| "has_type TIMESTAMP (VTimestamp t) = True"
| "has_type t v = False"

text \<open>
  The constraints a single value can violate. A \<open>CHECK\<close> passes on \<open>NULL\<close>. Defaults
  constrain nothing; keys and references are conditions on tables, not on a value.
\<close>

fun satisfies :: "sql_constraint \<Rightarrow> sql_value \<Rightarrow> bool" where
  "satisfies NOT_NULL v = (v \<noteq> Null)"
| "satisfies PRIMARY_KEY v = (v \<noteq> Null)"
| "satisfies (CHECK_IN allowed) v =
     (case v of Null \<Rightarrow> True | VText s \<Rightarrow> s \<in> set allowed | _ \<Rightarrow> False)"
| "satisfies k v = True"

fun is_check :: "sql_constraint \<Rightarrow> bool" where
  "is_check (CHECK_IN allowed) = True"
| "is_check k = False"

text \<open>A row gives values to column names; a column it does not mention is \<open>NULL\<close>.\<close>

type_synonym row = "(string \<times> sql_value) list"

definition field :: "row \<Rightarrow> string \<Rightarrow> sql_value" where
  "field r n = (case map_of r n of None \<Rightarrow> Null | Some v \<Rightarrow> v)"

definition column_accepts :: "column \<Rightarrow> sql_value \<Rightarrow> bool" where
  "column_accepts c v =
     (has_type (col_type c) v \<and> list_all (\<lambda>k. satisfies k v) (col_constraints c))"

definition row_accepted :: "column list \<Rightarrow> row \<Rightarrow> bool" where
  "row_accepted cols r = list_all (\<lambda>c. column_accepts c (field r (col_name c))) cols"

definition key_columns :: "column list \<Rightarrow> string list" where
  "key_columns cols =
     map col_name
       (filter (\<lambda>c. UNIQUE \<in> set (col_constraints c) \<or> PRIMARY_KEY \<in> set (col_constraints c))
          cols)"

text \<open>\<open>UNIQUE\<close> and \<open>PRIMARY KEY\<close>: no two rows share a non-null value of the column.\<close>

definition keys_distinct :: "column list \<Rightarrow> row list \<Rightarrow> bool" where
  "keys_distinct cols rows =
     list_all (\<lambda>n. distinct (filter (\<lambda>v. v \<noteq> Null) (map (\<lambda>r. field r n) rows)))
       (key_columns cols)"

definition table_accepted :: "column list \<Rightarrow> row list \<Rightarrow> bool" where
  "table_accepted cols rows = (list_all (row_accepted cols) rows \<and> keys_distinct cols rows)"

definition column_of :: "column list \<Rightarrow> string \<Rightarrow> column option" where
  "column_of cols n = find (\<lambda>c. col_name c = n) cols"

text \<open>The statuses of the three status columns.\<close>

definition booking_statuses :: "string list" where
  "booking_statuses = [''pending'', ''confirmed'', ''cancelled'', ''completed'']"

definition commission_statuses :: "string list" where
  "commission_statuses = [''pending'', ''paid'', ''cancelled'']"

definition license_statuses :: "string list" where
  "license_statuses = [''pending'', ''active'', ''expired'', ''revoked'']"

text \<open>Two affiliate rows whose commission rate is outside 0 to 100.\<close>

definition ex_row_negative_rate :: row where
  "ex_row_negative_rate =
     [(''id'', VUuid 20), (''user_id'', VUuid 30), (''referral_code'', VText ''ANA2025''),
      (''commission_rate'', VNum (- 50)), (''total_referrals'', VInt 0),
      (''total_commission'', VNum 0), (''is_active'', VBool True),
      (''created_at'', VTimestamp 0), (''updated_at'', VTimestamp 0)]"

definition ex_row_huge_rate :: row where
  "ex_row_huge_rate =
     [(''id'', VUuid 21), (''user_id'', VUuid 31), (''referral_code'', VText ''BIA2025''),
      (''commission_rate'', VNum (99999 / 100)), (''total_referrals'', VInt 0),
      (''total_commission'', VNum 0), (''is_active'', VBool True),
      (''created_at'', VTimestamp 0), (''updated_at'', VTimestamp 0)]"

definition ex_user_rows :: "row list" where
  "ex_user_rows =
     [[(''id'', VUuid 30), (''name'', VText ''Ana''), (''email'', VText ''ana@example.com''),
       (''password_hash'', VText ''x''), (''role'', VText ''affiliate'')],
      [(''id'', VUuid 31), (''name'', VText ''Celso''), (''email'', VText ''celso@example.com''),
       (''password_hash'', VText ''y''), (''role'', VText ''admin'')]]"

definition ex_booking_rows :: "row list" where
  "ex_booking_rows =
     [[(''id'', VUuid 41), (''client_name'', VText ''Bia''),
       (''client_email'', VText ''bia@example.com''), (''scheduled_date'', VDate 100),
       (''scheduled_time'', VTime 32400), (''status'', VText ''confirmed''),
       (''total_amount'', VNum 200), (''payment_status'', VText ''pending'')]]"

definition ex_commission_rows :: "row list" where
  "ex_commission_rows =
     [[(''id'', VUuid 50), (''affiliate_id'', VUuid 20), (''booking_id'', VUuid 41),
       (''amount'', VNum 30), (''percentage'', VNum 15), (''status'', VText ''pending'')]]"

definition ex_license_rows :: "row list" where
  "ex_license_rows =
     [[(''id'', VUuid 60), (''serial_key'', VText ''LUNA-MASTER-X9K7-M2P5-Q8R3''),
       (''license_type'', VText ''master''), (''status'', VText ''active'')],
      [(''id'', VUuid 61), (''serial_key'', VText ''LUNA-MASTER-L4N6-V7W9-T1Y4''),
       (''license_type'', VText ''master''), (''status'', VText ''pending'')]]"

section \<open>Properties of booking creation\<close>

lemma query_cases:
  "query rejects st run c =
     (case rejects (db c) st of
        Some m \<Rightarrow> (c\<lparr>sent := sent c @ [st]\<rparr>, Inl (StoreError m))
      | None \<Rightarrow> (c\<lparr>sent := sent c @ [st], db := fst (run (db c))\<rparr>, Inr (snd (run (db c)))))"
  by (simp add: query_def Let_def split: option.splits prod.splits)

lemmas booking_defs =
  create_booking_def bind_tx_def resolve_affiliate_def create_commission_def
  return_tx_def throw_tx_def query_cases insert_booking_def insert_commission_def

lemmas run_defs =
  post_booking_def transaction_def create_booking_def bind_tx_def resolve_affiliate_def
  create_commission_def return_tx_def throw_tx_def query_def insert_booking_def
  insert_commission_def service_rows_def conflict_rows_def affiliate_rows_by_code_def
  affiliate_rows_by_id_def occupies_def new_booking_def new_commission_def
  message_or_internal_def MSG_SLOT_TAKEN_def MSG_SERVICE_NOT_FOUND_def MSG_INTERNAL_def

lemmas ex_defs =
  ex_user_def ex_affiliate_def ex_service_def ex_booking_def ex_store_def ex_conn_def
  ex_generated_def ex_request_def ex_request_taken_def ex_request_unknown_code_def
  accepts_all_def rejects_commission_def ex_new_booking_def ex_new_commission_def
  ex_conn_created_def ex_response_created_def ex_conn_taken_def ex_response_taken_def
  ex_conn_rolled_back_def ex_response_rolled_back_def ex_new_booking_plain_def
  ex_conn_plain_def ex_response_plain_def

lemma create_booking_trace:
  assumes "create_booking rejects g req c = (c', r)"
  shows "\<exists>steps. sent c' = sent c @ steps \<and> prefix steps (booking_plan g req (db c))
      \<and> (\<forall>v. r = Inr v \<longrightarrow> steps = booking_plan g req (db c))"
  using assms
  unfolding booking_defs booking_plan_def  commission_steps_def spec_affiliate_def affiliate_steps_def
     new_booking_def spec_commission_def
  by (auto split: option.splits list.splits prod.splits sum.splits if_splits simp: Let_def affiliate_rows_by_id_def affiliate_rows_by_code_def)

lemma create_booking_returns:
  assumes "create_booking rejects g req c = (c', Inr v)"
  shows "\<exists>service rest.
           service_rows (rq_service_id req) (rq_therapist_id req) (db c) = service # rest
         \<and> conflict_rows (rq_therapist_id req) (rq_scheduled_date req) (rq_scheduled_time req) (db c) = []
         \<and> v = new_booking g req (spec_affiliate (rq_affiliate_code req) (db c)) (s_price service)
         \<and> db c' = (db c)\<lparr>bookings := bookings (db c) @ [v],
                commissions := commissions (db c)
                   @ commission_rows g (spec_affiliate (rq_affiliate_code req) (db c)) service (db c)\<rparr>"
  using assms
  unfolding booking_defs commission_rows_def spec_affiliate_def 
     new_booking_def spec_commission_def
  by (auto split: option.splits list.splits prod.splits sum.splits if_splits simp: Let_def affiliate_rows_by_id_def affiliate_rows_by_code_def)

lemma create_booking_total:
  assumes "\<forall>d st. rejects d st = None"
  shows "(\<exists>c' v. create_booking rejects g req c = (c', Inr v)) \<longleftrightarrow>
     (service_rows (rq_service_id req) (rq_therapist_id req) (db c) \<noteq> []
      \<and> conflict_rows (rq_therapist_id req) (rq_scheduled_date req) (rq_scheduled_time req) (db c) = [])"
  using assms
  unfolding booking_defs
  by (auto split: option.splits list.splits prod.splits sum.splits if_splits simp: Let_def )


lemma create_booking_complete:
  assumes "\<forall>d st. rejects d st = None" "create_booking rejects g req c = (c', r)"
  shows "sent c' = sent c @ booking_plan g req (db c)"
  using assms
  unfolding booking_defs booking_plan_def  commission_steps_def spec_affiliate_def affiliate_steps_def
     new_booking_def spec_commission_def
  by (auto split: option.splits list.splits prod.splits sum.splits if_splits simp: Let_def affiliate_rows_by_id_def affiliate_rows_by_code_def)

lemma transaction_cases:
  assumes "transaction callback c = (c', r)"
  obtains (commit) c1 v where "callback (c\<lparr>sent := sent c @ [Begin]\<rparr>) = (c1, Inr v)"
            "c' = c1\<lparr>sent := sent c1 @ [Commit]\<rparr>" "r = Inr v"
        | (rollback) c1 e where "callback (c\<lparr>sent := sent c @ [Begin]\<rparr>) = (c1, Inl e)"
            "c' = \<lparr>db = db c, sent = sent c1 @ [Rollback]\<rparr>" "r = Inl e"
  using assms unfolding transaction_def
  by (auto split: prod.splits sum.splits)

lemma post_booking_cases:
  assumes "post_booking rejects g verrors req c = (c', r)"
  obtains (invalid) "verrors \<noteq> []" "c' = c" "http_status r = 400" "\<not> success r"
        | (created) v where "verrors = []" "transaction (create_booking rejects g req) c = (c', Inr v)"
             "http_status r = 201" "success r" "data r = Some v"
        | (failed) e where "verrors = []" "transaction (create_booking rejects g req) c = (c', Inl e)"
             "http_status r = 500" "\<not> success r" "message r = Some (message_or_internal e)"
  using assms unfolding post_booking_def
  by (auto split: prod.splits sum.splits if_splits)




lemma holds_slot_conflict:
  assumes "b \<in> set (bookings d)" "holds_slot req b"
  shows "conflict_rows (rq_therapist_id req) (rq_scheduled_date req) (rq_scheduled_time req) d \<noteq> []"
proof -
  have "b \<in> set (conflict_rows (rq_therapist_id req) (rq_scheduled_date req) (rq_scheduled_time req) d)"
    using assms by (simp add: conflict_rows_def holds_slot_def occupies_def)
  then show ?thesis by auto
qed

lemma conflict_plan:
  assumes "conflict_rows (rq_therapist_id req) (rq_scheduled_date req) (rq_scheduled_time req) d \<noteq> []"
  shows "\<forall>b'. InsertBooking b' \<notin> set (booking_plan g req d)"
  using assms by (auto simp: booking_plan_def split: list.splits)

lemma create_booking_conflict_message:
  assumes "conflict_rows (rq_therapist_id req) (rq_scheduled_date req) (rq_scheduled_time req) (db c) \<noteq> []"
    and "service_rows (rq_service_id req) (rq_therapist_id req) (db c) \<noteq> []"
    and "rejects (db c) (SelectService (rq_service_id req) (rq_therapist_id req)) = None"
    and "rejects (db c) (SelectConflict (rq_therapist_id req) (rq_scheduled_date req) (rq_scheduled_time req)) = None"
  shows "snd (create_booking rejects g req c) = Inl (AppError MSG_SLOT_TAKEN)"
  using assms unfolding booking_defs
  by (auto split: option.splits list.splits prod.splits sum.splits if_splits simp: Let_def)

lemma MSG_SLOT_TAKEN_nonempty: "message_or_internal (AppError MSG_SLOT_TAKEN) = MSG_SLOT_TAKEN"
  by (simp add: message_or_internal_def MSG_SLOT_TAKEN_def)

text \<open>
  Claim C2. If an existing booking of the requested therapist has the requested date
  and time and a status other than cancelled or completed, the response is
  unsuccessful (status 400 or 500, never 201), no booking row is added and no
  \<open>INSERT INTO bookings\<close> is even sent; when the request is valid and the service
  lookup went through, the response is the conflict error: status 500 with the
  message of \<open>MSG_SLOT_TAKEN\<close>.
\<close>

theorem C2_taken_slot_rejected:
  assumes "b \<in> set (bookings (db c))" and "holds_slot req b"
    and "post_booking rejects g verrors req c = (c', r)"
  shows "\<not> success r \<and> http_status r \<in> {400, 500} \<and> bookings (db c') = bookings (db c)
       \<and> (\<exists>steps. sent c' = sent c @ steps \<and> (\<forall>b'. InsertBooking b' \<notin> set steps))
       \<and> (verrors = []
            \<and> service_rows (rq_service_id req) (rq_therapist_id req) (db c) \<noteq> []
            \<and> rejects (db c) (SelectService (rq_service_id req) (rq_therapist_id req)) = None
            \<and> rejects (db c) (SelectConflict (rq_therapist_id req) (rq_scheduled_date req)
                  (rq_scheduled_time req)) = None
          \<longrightarrow> http_status r = 500 \<and> message r = Some MSG_SLOT_TAKEN)"
proof -
  note conf = holds_slot_conflict[OF assms(1,2)]
  from assms(3) show ?thesis
  proof (cases rule: post_booking_cases)
    case invalid
    then show ?thesis by simp
  next
    case (created v)
    from created(2) show ?thesis
    proof (cases rule: transaction_cases)
      case (commit c1 v')
      from create_booking_returns[OF commit(1)] conf
      show ?thesis by auto
    next
      case (rollback c1 e)
      then show ?thesis by simp
    qed
  next
    case (failed e)
    from failed(2) show ?thesis
    proof (cases rule: transaction_cases)
      case (commit c1 v')
      then show ?thesis by simp
    next
      case (rollback c1 e')
      from create_booking_trace[OF rollback(1)]
      obtain steps where st: "sent c1 = sent c @ [Begin] @ steps"
          "prefix steps (booking_plan g req (db c))" by auto
      have noins: "\<forall>b'. InsertBooking b' \<notin> set steps"
        using conflict_plan[OF conf, of g] st(2) set_mono_prefix by fastforce
      have tr: "\<exists>steps. sent c' = sent c @ steps \<and> (\<forall>b'. InsertBooking b' \<notin> set steps)"
        using st(1) noins rollback(2) by (intro exI[of _ "[Begin] @ steps @ [Rollback]"]) simp
      have msg: "service_rows (rq_service_id req) (rq_therapist_id req) (db c) \<noteq> []
            \<and> rejects (db c) (SelectService (rq_service_id req) (rq_therapist_id req)) = None
            \<and> rejects (db c) (SelectConflict (rq_therapist_id req) (rq_scheduled_date req)
                  (rq_scheduled_time req)) = None
          \<longrightarrow> message r = Some MSG_SLOT_TAKEN"
        using create_booking_conflict_message[of req "c\<lparr>sent := sent c @ [Begin]\<rparr>" rejects g] conf
          rollback(1,3) failed(5) MSG_SLOT_TAKEN_nonempty by auto
      show ?thesis using failed rollback(2) tr msg by simp
    qed
  qed
qed


theorem C2_taken_slot_rejected_witness:
  "ex_booking \<in> set (bookings (db ex_conn))
   \<and> holds_slot ex_request_taken ex_booking
   \<and> post_booking accepts_all ex_generated [] ex_request_taken ex_conn
        = (ex_conn_taken, ex_response_taken)
   \<and> \<not> success ex_response_taken
   \<and> bookings (db ex_conn_taken) = bookings (db ex_conn)
   \<and> http_status ex_response_taken = 500
   \<and> message ex_response_taken = Some MSG_SLOT_TAKEN"
proof -
  have h1: "ex_booking \<in> set (bookings (db ex_conn))"
    by (simp add: ex_defs)
  have h2: "holds_slot ex_request_taken ex_booking"
    by (simp add: holds_slot_def ex_defs)
  have run: "post_booking accepts_all ex_generated [] ex_request_taken ex_conn
               = (ex_conn_taken, ex_response_taken)"
    by (simp add: run_defs ex_defs Let_def)
  have found: "service_rows (rq_service_id ex_request_taken) (rq_therapist_id ex_request_taken)
                 (db ex_conn) \<noteq> []"
    by (simp add: service_rows_def ex_defs)
  have ok: "accepts_all (db ex_conn) st = None" for st
    by (simp add: accepts_all_def)
  from C2_taken_slot_rejected[OF h1 h2 run] found ok
  have "\<not> success ex_response_taken \<and> bookings (db ex_conn_taken) = bookings (db ex_conn)
        \<and> http_status ex_response_taken = 500
        \<and> message ex_response_taken = Some MSG_SLOT_TAKEN"
    by blast
  with h1 h2 run show ?thesis by blast
qed

lemma spec_affiliate_found:
  assumes "spec_affiliate code d = Some aid"
  shows "\<exists>a rest. affiliate_rows_by_id aid d = a # rest \<and> a_id a = aid \<and> a \<in> set (affiliates d)"
proof -
  from assms obtain s a rest where s: "code = Some s" "s \<noteq> []"
      "affiliate_rows_by_code s d = a # rest" "a_id a = aid"
    by (auto simp: spec_affiliate_def split: option.splits if_splits list.splits)
  then have "a \<in> set (affiliate_rows_by_code s d)" by simp
  then have "a \<in> set (affiliates d)" by (simp add: affiliate_rows_by_code_def)
  with s(4) have "a \<in> set (affiliate_rows_by_id aid d)" by (simp add: affiliate_rows_by_id_def)
  then obtain a' rest' where r: "affiliate_rows_by_id aid d = a' # rest'"
    by (cases "affiliate_rows_by_id aid d") auto
  then have "a' \<in> set (affiliate_rows_by_id aid d)" by simp
  then have "a_id a' = aid \<and> a' \<in> set (affiliates d)" by (simp add: affiliate_rows_by_id_def)
  with r show ?thesis by blast
qed

lemma commission_rows_length:
  "length (commission_rows g (spec_affiliate code d) service d)
     = (case spec_affiliate code d of None \<Rightarrow> 0 | Some aid \<Rightarrow> 1)"
proof (cases "spec_affiliate code d")
  case None
  then show ?thesis by (simp add: commission_rows_def)
next
  case (Some aid)
  from spec_affiliate_found[OF Some] show ?thesis using Some
    by (auto simp: commission_rows_def)
qed

text \<open>
  Claim C3. The booking-creation transaction is atomic. If the response is not a
  success (validation failure, service not found or inactive, slot conflict, or a
  statement rejected by the store, even after the booking insert), the store is what
  it was before the request. On success the store is the old one with the booking
  row added and, exactly when an affiliate was resolved, one commission row added
  with it.
\<close>

theorem C3_booking_transaction_atomic:
  assumes "post_booking rejects g verrors req c = (c', r)"
  shows "(\<not> success r \<longrightarrow> db c' = db c)
       \<and> (success r \<longrightarrow>
            (\<exists>service rest new.
                service_rows (rq_service_id req) (rq_therapist_id req) (db c) = service # rest
              \<and> new = commission_rows g (spec_affiliate (rq_affiliate_code req) (db c)) service (db c)
              \<and> db c' = (db c)\<lparr>bookings := bookings (db c) @
                            [new_booking g req (spec_affiliate (rq_affiliate_code req) (db c))
                               (s_price service)],
                          commissions := commissions (db c) @ new\<rparr>
              \<and> length new
                   = (case spec_affiliate (rq_affiliate_code req) (db c) of None \<Rightarrow> 0 | Some aid \<Rightarrow> 1)))"
  using assms
proof (cases rule: post_booking_cases)
  case invalid
  then show ?thesis by simp
next
  case (created v)
  from created(2) show ?thesis
  proof (cases rule: transaction_cases)
    case (commit c1 v')
    from create_booking_returns[OF commit(1)] commission_rows_length[of g "rq_affiliate_code req" "db c"]
    show ?thesis using commit created by auto
  next
    case (rollback c1 e)
    then show ?thesis by simp
  qed
next
  case (failed e)
  from failed(2) show ?thesis
  proof (cases rule: transaction_cases)
    case (commit c1 v')
    then show ?thesis by simp
  next
    case (rollback c1 e')
    then show ?thesis using failed by simp
  qed
qed

theorem C3_booking_transaction_atomic_witness:
  "post_booking rejects_commission ex_generated [] ex_request ex_conn
     = (ex_conn_rolled_back, ex_response_rolled_back)
   \<and> InsertBooking ex_new_booking \<in> set (sent ex_conn_rolled_back)
   \<and> \<not> success ex_response_rolled_back
   \<and> db ex_conn_rolled_back = db ex_conn"
proof -
  have run: "post_booking rejects_commission ex_generated [] ex_request ex_conn
               = (ex_conn_rolled_back, ex_response_rolled_back)"
    by (simp add: run_defs ex_defs Let_def)
  have sent: "InsertBooking ex_new_booking \<in> set (sent ex_conn_rolled_back)"
    by (simp add: ex_conn_rolled_back_def)
  have fail: "\<not> success ex_response_rolled_back"
    by (simp add: ex_response_rolled_back_def)
  from C3_booking_transaction_atomic[OF run] fail
  have "db ex_conn_rolled_back = db ex_conn" by blast
  with run sent fail show ?thesis by blast
qed





text \<open>
  Claim C9. If an affiliate code is supplied but is no affiliate's referral code,
  then (the request being valid, the service found, the slot free and the store
  rejecting nothing) booking creation still succeeds with status 201: the booking
  row is added with \<open>affiliate_id\<close> null, no commission row is added and no commission
  insert is sent.
\<close>

theorem C9_unknown_affiliate_code:
  assumes "post_booking rejects g [] req c = (c', r)"
    and "rq_affiliate_code req = Some code"
    and "code \<notin> set (map a_referral_code (affiliates (db c)))"
    and "service_rows (rq_service_id req) (rq_therapist_id req) (db c) \<noteq> []"
    and "conflict_rows (rq_therapist_id req) (rq_scheduled_date req) (rq_scheduled_time req) (db c) = []"
    and "\<forall>d st. rejects d st = None"
  shows "success r \<and> http_status r = 201
       \<and> (\<exists>b. data r = Some b \<and> b_affiliate_id b = None
              \<and> bookings (db c') = bookings (db c) @ [b])
       \<and> commissions (db c') = commissions (db c)
       \<and> (\<exists>steps. sent c' = sent c @ steps \<and> (\<forall>cm. InsertCommission cm \<notin> set steps))"
proof -
  have none: "affiliate_rows_by_code code (db c) = []"
    using assms(3) by (auto simp: affiliate_rows_by_code_def filter_empty_conv)
  have aff: "spec_affiliate (rq_affiliate_code req) (db c) = None"
    using none assms(2) by (simp add: spec_affiliate_def)
  let ?c0 = "c\<lparr>sent := sent c @ [Begin]\<rparr>"
  from create_booking_total[OF assms(6), of g req ?c0] assms(4,5)
  obtain c1 v where run: "create_booking rejects g req ?c0 = (c1, Inr v)" by auto
  from create_booking_returns[OF run] aff
  have v: "b_affiliate_id v = None"
    and d: "db c1 = (db c)\<lparr>bookings := bookings (db c) @ [v], commissions := commissions (db c)\<rparr>"
    by (auto simp: commission_rows_def new_booking_def)
  have "post_booking rejects g [] req c =
      (c1\<lparr>sent := sent c1 @ [Commit]\<rparr>,
       \<lparr>http_status = 201, success = True, message = Some MSG_BOOKING_CREATED,
        errors = None, data = Some v\<rparr>)"
    using run by (simp add: post_booking_def transaction_def)
  with assms(1) have c': "c' = c1\<lparr>sent := sent c1 @ [Commit]\<rparr>"
    and r: "r = \<lparr>http_status = 201, success = True, message = Some MSG_BOOKING_CREATED,
        errors = None, data = Some v\<rparr>" by simp_all
  have plan: "\<forall>cm. InsertCommission cm \<notin> set (booking_plan g req (db c))"
    using aff by (auto simp: booking_plan_def commission_steps_def affiliate_steps_def
                       split: list.splits option.splits if_splits)
  have "sent c' = sent c @ ([Begin] @ booking_plan g req (db c) @ [Commit])"
    using create_booking_complete[OF assms(6) run] c' by simp
  with plan have "\<exists>steps. sent c' = sent c @ steps \<and> (\<forall>cm. InsertCommission cm \<notin> set steps)"
    by (intro exI[of _ "[Begin] @ booking_plan g req (db c) @ [Commit]"]) simp
  then show ?thesis using c' r v d by simp
qed



theorem C9_unknown_affiliate_code_witness:
  "post_booking accepts_all ex_generated [] ex_request_unknown_code ex_conn
     = (ex_conn_plain, ex_response_plain)
   \<and> rq_affiliate_code ex_request_unknown_code = Some ''NOCODE''
   \<and> ''NOCODE'' \<notin> set (map a_referral_code (affiliates (db ex_conn)))
   \<and> service_rows (rq_service_id ex_request_unknown_code)
        (rq_therapist_id ex_request_unknown_code) (db ex_conn) \<noteq> []
   \<and> conflict_rows (rq_therapist_id ex_request_unknown_code)
        (rq_scheduled_date ex_request_unknown_code)
        (rq_scheduled_time ex_request_unknown_code) (db ex_conn) = []
   \<and> (\<forall>d st. (accepts_all :: rat verdict) d st = None)
   \<and> (success ex_response_plain \<and> http_status ex_response_plain = 201
       \<and> (\<exists>b. data ex_response_plain = Some b \<and> b_affiliate_id b = None
              \<and> bookings (db ex_conn_plain) = bookings (db ex_conn) @ [b])
       \<and> commissions (db ex_conn_plain) = commissions (db ex_conn)
       \<and> (\<exists>steps. sent ex_conn_plain = sent ex_conn @ steps
              \<and> (\<forall>cm. InsertCommission cm \<notin> set steps)))"
proof -
  have run: "post_booking accepts_all ex_generated [] ex_request_unknown_code ex_conn
               = (ex_conn_plain, ex_response_plain)"
    by (simp add: run_defs ex_defs Let_def)
  have h2: "rq_affiliate_code ex_request_unknown_code = Some ''NOCODE''"
    by (simp add: ex_defs)
  have h3: "''NOCODE'' \<notin> set (map a_referral_code (affiliates (db ex_conn)))"
    by (simp add: ex_defs)
  have h4: "service_rows (rq_service_id ex_request_unknown_code)
        (rq_therapist_id ex_request_unknown_code) (db ex_conn) \<noteq> []"
    by (simp add: service_rows_def ex_defs)
  have h5: "conflict_rows (rq_therapist_id ex_request_unknown_code)
        (rq_scheduled_date ex_request_unknown_code)
        (rq_scheduled_time ex_request_unknown_code) (db ex_conn) = []"
    by (simp add: conflict_rows_def ex_defs)
  have h6: "\<forall>d st. (accepts_all :: rat verdict) d st = None"
    by (simp add: accepts_all_def)
  show ?thesis
    by (rule conjI[OF run conjI[OF h2 conjI[OF h3 conjI[OF h4 conjI[OF h5 conjI[OF h6
          C9_unknown_affiliate_code[OF run h2 h3 h4 h5 h6]]]]]]])
qed

section \<open>Properties of confirming and cancelling\<close>

lemmas upd_defs = confirm_booking_def cancel_booking_def query_def update_where_def confirmable_def
  cancellable_def set_confirmed_def set_cancelled_def

lemma update_where_status:
  "map b_status (bookings (fst (update_where cond upd d)))
     = map (\<lambda>b. if cond b then b_status (upd b) else b_status b) (bookings d)"
  by (simp add: update_where_def comp_def if_distrib)

lemma update_where_returned:
  "snd (update_where cond upd d) = [] \<longleftrightarrow> \<not> (\<exists>b\<in>set (bookings d). cond b)"
  by (auto simp: update_where_def filter_empty_conv)

lemma confirm_booking_run:
  assumes "rejects (db c) (UpdateConfirm bid) = None"
  shows "db (fst (confirm_booking rejects now bid c))
           = fst (update_where (confirmable bid) (set_confirmed now) (db c))"
    and "http_status (snd (confirm_booking rejects now bid c))
           = (if snd (update_where (confirmable bid) (set_confirmed now) (db c)) = [] then 404 else 200)"
  using assms
  by (auto simp: confirm_booking_def query_def Let_def split: prod.splits list.splits)

lemma cancel_booking_run:
  assumes "rejects (db c) (UpdateCancel bid reason) = None"
  shows "db (fst (cancel_booking rejects now bid reason c))
           = fst (update_where (cancellable bid) (set_cancelled now reason) (db c))"
    and "http_status (snd (cancel_booking rejects now bid reason c))
           = (if snd (update_where (cancellable bid) (set_cancelled now reason) (db c)) = [] then 404 else 200)"
  using assms
  by (auto simp: cancel_booking_def query_def Let_def split: prod.splits list.splits)

text \<open>
  Claim C4, as amended. The status is changed by guarded updates. Confirming sets the
  status to \<open>confirmed\<close> exactly for a booking with the given id whose status is
  \<open>pending\<close>; cancelling sets it to \<open>cancelled\<close> exactly for one whose status is
  \<open>pending\<close> or \<open>confirmed\<close>. Every other row keeps its status, and when no row
  qualifies the response is 404.
\<close>

theorem C4_status_updates_guarded:
  assumes "rejects (db c) (UpdateConfirm bid) = None"
    and "rejects (db c) (UpdateCancel bid reason) = None"
  shows "map b_status (bookings (db (fst (confirm_booking rejects now bid c))))
           = map (\<lambda>b. if b_id b = bid \<and> b_status b = ''pending'' then ''confirmed''
                       else b_status b) (bookings (db c))
       \<and> http_status (snd (confirm_booking rejects now bid c))
           = (if \<exists>b\<in>set (bookings (db c)). b_id b = bid \<and> b_status b = ''pending''
              then 200 else 404)
       \<and> map b_status (bookings (db (fst (cancel_booking rejects now bid reason c))))
           = map (\<lambda>b. if b_id b = bid \<and> (b_status b = ''pending'' \<or> b_status b = ''confirmed'')
                       then ''cancelled'' else b_status b) (bookings (db c))
       \<and> http_status (snd (cancel_booking rejects now bid reason c))
           = (if \<exists>b\<in>set (bookings (db c)).
                    b_id b = bid \<and> (b_status b = ''pending'' \<or> b_status b = ''confirmed'')
              then 200 else 404)"
proof -
  note cf = confirm_booking_run[where rejects=rejects and c=c and bid=bid and now=now, OF assms(1)]
    and cn = cancel_booking_run[where rejects=rejects and c=c and bid=bid and reason=reason
               and now=now, OF assms(2)]
  have 1: "map b_status (bookings (db (fst (confirm_booking rejects now bid c))))
           = map (\<lambda>b. if b_id b = bid \<and> b_status b = ''pending'' then ''confirmed''
                       else b_status b) (bookings (db c))"
    by (auto simp: cf(1) update_where_status confirmable_def set_confirmed_def)
  have 2: "http_status (snd (confirm_booking rejects now bid c))
           = (if \<exists>b\<in>set (bookings (db c)). b_id b = bid \<and> b_status b = ''pending''
              then 200 else 404)"
    by (simp add: cf(2) update_where_returned confirmable_def)
  have 3: "map b_status (bookings (db (fst (cancel_booking rejects now bid reason c))))
           = map (\<lambda>b. if b_id b = bid \<and> (b_status b = ''pending'' \<or> b_status b = ''confirmed'')
                       then ''cancelled'' else b_status b) (bookings (db c))"
    by (auto simp: cn(1) update_where_status cancellable_def set_cancelled_def)
  have 4: "http_status (snd (cancel_booking rejects now bid reason c))
           = (if \<exists>b\<in>set (bookings (db c)).
                    b_id b = bid \<and> (b_status b = ''pending'' \<or> b_status b = ''confirmed'')
              then 200 else 404)"
    by (simp add: cn(2) update_where_returned cancellable_def)
  from 1 2 3 4 show ?thesis by (intro conjI)
qed

lemmas ex_defs2 = ex_booking_cancelled_def ex_booking_completed_def ex_conn_closed_def
  ex_booking_pending_def ex_conn_open_def ex_booking_def ex_store_def accepts_all_def
  ex_user_def ex_affiliate_def ex_service_def

theorem C4_status_updates_guarded_witness:
  "accepts_all (db ex_conn_open) (UpdateConfirm 44) = None
   \<and> accepts_all (db ex_conn_open) (UpdateCancel 44 None) = None
   \<and> map b_status (bookings (db ex_conn_open)) = [''pending'', ''confirmed'']
   \<and> map b_status (bookings (db (fst (confirm_booking accepts_all 2000 44 ex_conn_open))))
        = [''confirmed'', ''confirmed'']
   \<and> http_status (snd (confirm_booking accepts_all 2000 44 ex_conn_open)) = 200
   \<and> map b_status (bookings (db (fst (cancel_booking accepts_all 2000 44 None ex_conn_open))))
        = [''cancelled'', ''confirmed'']
   \<and> http_status (snd (cancel_booking accepts_all 2000 44 None ex_conn_open)) = 200"
proof -
  have h1: "accepts_all (db ex_conn_open) (UpdateConfirm 44) = None"
    and h2: "accepts_all (db ex_conn_open) (UpdateCancel 44 None) = None"
    by (simp_all add: accepts_all_def)
  have st: "map b_status (bookings (db ex_conn_open)) = [''pending'', ''confirmed'']"
    and ids: "map b_id (bookings (db ex_conn_open)) = [44, 41]"
    by (simp_all add: ex_defs2)
  from C4_status_updates_guarded[where rejects=accepts_all and c=ex_conn_open and bid=44
         and reason=None and now=2000, OF h1 h2]
  show ?thesis
    using h1 h2 st by (simp add: ex_defs2)
qed

text \<open>
  The claim as stated fails: confirming a cancelled booking and cancelling a completed
  one change nothing and answer 404.
\<close>

theorem C4_unconditional_update_counterexample:
  "map b_id (bookings (db ex_conn_closed)) = [41, 43]
   \<and> map b_status (bookings (db ex_conn_closed)) = [''cancelled'', ''completed'']
   \<and> map b_status (bookings (db (fst (confirm_booking accepts_all 2000 41 ex_conn_closed))))
        = [''cancelled'', ''completed'']
   \<and> http_status (snd (confirm_booking accepts_all 2000 41 ex_conn_closed)) = 404
   \<and> map b_status (bookings (db (fst (cancel_booking accepts_all 2000 43 None ex_conn_closed))))
        = [''cancelled'', ''completed'']
   \<and> http_status (snd (cancel_booking accepts_all 2000 43 None ex_conn_closed)) = 404"
  by (simp add: upd_defs ex_defs2)


section \<open>Properties of the bookings list\<close>


















section \<open>Properties of the availability\<close>

lemma defaultSlots_grid: "defaultSlots = slot_grid"
  by (simp add: defaultSlots_def slot_grid_def padStart2_def digit_char_def)

lemma grid_times: "map slot_seconds slot_grid = map grid_start [0..<20]"
proof -
  have "[0..<20] = [0, 1, 2, 3, 4, 5, 6, 7, 8, 9, 10, 11, 12, 13, 14, 15, 16, 17, 18, 19 :: nat]"
    by (simp add: upt_rec)
  then show ?thesis
    by (simp add: slot_seconds_def slot_grid_def grid_start_def digit_value_def)
qed

lemma slot_grid_length: "length slot_grid = 20"
  by (simp add: slot_grid_def)

lemma grid_time:
  assumes "k < 20"
  shows "slot_seconds (slot_grid ! k) = grid_start k"
proof -
  have "slot_seconds (slot_grid ! k) = map slot_seconds slot_grid ! k"
    using assms by (simp add: slot_grid_length)
  also have "\<dots> = map grid_start [0..<20] ! k" by (simp only: grid_times)
  also have "\<dots> = grid_start k" using assms by simp
  finally show ?thesis .
qed

lemma busy_slots_member:
  assumes "b \<in> set (bookings d)" "b_therapist_id b = Some tid" "b_scheduled_date b = dt"
    "b_status b \<noteq> ''cancelled''" "b_status b \<noteq> ''completed''"
    "s \<in> set (services d)" "b_service_id b = Some (s_id s)"
  shows "(b_scheduled_time b, s_duration_minutes s) \<in> set (busy_slots tid dt d)"
  using assms by (auto simp: busy_slots_def occupies_def intro!: bexI[of _ b])

lemma available_no_collision:
  assumes "slot \<in> set (availableSlots busy)" "x \<in> set busy"
  shows "\<not> collides slot x"
  using assms by (auto simp: availableSlots_def list_ex_iff)

lemma available_in_grid:
  assumes "slot \<in> set (availableSlots busy)"
  shows "\<exists>k<20. slot = slot_grid ! k"
proof -
  from assms have "slot \<in> set slot_grid"
    by (simp add: availableSlots_def defaultSlots_grid)
  then obtain k where "k < length slot_grid" "slot_grid ! k = slot"
    by (auto simp: in_set_conv_nth)
  then show ?thesis by (auto simp: slot_grid_length)
qed

lemma get_availability_data:
  assumes "get_availability rejects tid date_param c = (c', r)" "data r = Some av"
  shows "date_param = Some (av_date av)
       \<and> av_available_slots av = availableSlots (busy_slots tid (av_date av) (db c))
       \<and> http_status r = 200"
  using assms
  by (auto simp: get_availability_def query_def Let_def split: option.splits prod.splits sum.splits)

text \<open>
  Claim C10. Every slot returned as available is one of the twenty half-hour slots
  of the grid from 08:00 to 17:30, and its hour, the interval from its start to 60
  minutes later, has no instant in common with the interval
  \<open>[start, start + duration_minutes)\<close> of any booking of that therapist on that date
  whose status is neither cancelled nor completed (the duration being that of the
  booking's service).
\<close>

theorem C10_available_slots_free:
  assumes "get_availability rejects tid date_param c = (c', r)" and "data r = Some av"
    and "slot \<in> set (av_available_slots av)"
  shows "length slot_grid = 20
       \<and> (\<exists>k<20. slot = slot_grid ! k
            \<and> (\<forall>b s m t.
                  b \<in> set (bookings (db c)) \<and> b_therapist_id b = Some tid
                  \<and> date_param = Some (b_scheduled_date b)
                  \<and> b_status b \<noteq> ''cancelled'' \<and> b_status b \<noteq> ''completed''
                  \<and> s \<in> set (services (db c)) \<and> b_service_id b = Some (s_id s)
                  \<and> s_duration_minutes s = Some m
                  \<longrightarrow> \<not> (grid_start k \<le> t \<and> t < grid_start k + 60 * 60
                         \<and> b_scheduled_time b \<le> t \<and> t < b_scheduled_time b + 60 * m)))"
proof -
  note d = get_availability_data[OF assms(1,2)]
  from assms(3) d have sl: "slot \<in> set (availableSlots (busy_slots tid (av_date av) (db c)))"
    by simp
  from available_in_grid[OF sl] obtain k where k: "k < 20" "slot = slot_grid ! k" by blast
  have "\<not> (grid_start k \<le> t \<and> t < grid_start k + 60 * 60
            \<and> b_scheduled_time b \<le> t \<and> t < b_scheduled_time b + 60 * m)"
    if h: "b \<in> set (bookings (db c))" "b_therapist_id b = Some tid"
       "date_param = Some (b_scheduled_date b)"
       "b_status b \<noteq> ''cancelled''" "b_status b \<noteq> ''completed''"
       "s \<in> set (services (db c))" "b_service_id b = Some (s_id s)"
       "s_duration_minutes s = Some m" for b s m t
  proof -
    from h(3) d have dt: "b_scheduled_date b = av_date av" by simp
    from busy_slots_member[OF h(1,2) dt h(4,5,6,7)] h(8)
    have "(b_scheduled_time b, Some m) \<in> set (busy_slots tid (av_date av) (db c))" by simp
    from available_no_collision[OF sl this]
    have "\<not> (grid_start k < b_scheduled_time b + 60 * m
             \<and> grid_start k + 60 * 60 > b_scheduled_time b)"
      using grid_time[OF k(1)] k(2) by (simp add: collides_def Let_def)
    then show ?thesis by linarith
  qed
  then show ?thesis using k slot_grid_length by blast
qed


theorem C10_available_slots_free_witness:
  "get_availability accepts_all 10 (Some 100) ex_conn
     = (ex_conn\<lparr>sent := [SelectBusySlots 10 100]\<rparr>,
        \<lparr>http_status = 200, success = True, message = None, errors = None,
         data = Some ex_availability\<rparr>)
   \<and> ''10:00'' \<in> set (av_available_slots ex_availability)
   \<and> ''10:00'' = slot_grid ! 4
   \<and> ex_booking \<in> set (bookings (db ex_conn))
   \<and> b_scheduled_time ex_booking = 32400
   \<and> s_duration_minutes ex_service = Some 60
   \<and> grid_start 4 = 36000
   \<and> (\<exists>k<20. ''10:00'' = slot_grid ! k
         \<and> (\<forall>b s m t.
               b \<in> set (bookings (db ex_conn)) \<and> b_therapist_id b = Some 10
               \<and> Some 100 = Some (b_scheduled_date b)
               \<and> b_status b \<noteq> ''cancelled'' \<and> b_status b \<noteq> ''completed''
               \<and> s \<in> set (services (db ex_conn)) \<and> b_service_id b = Some (s_id s)
               \<and> s_duration_minutes s = Some m
               \<longrightarrow> \<not> (grid_start k \<le> t \<and> t < grid_start k + 60 * 60
                      \<and> b_scheduled_time b \<le> t \<and> t < b_scheduled_time b + 60 * m)))"
proof -
  have run: "get_availability accepts_all 10 (Some 100) ex_conn
     = (ex_conn\<lparr>sent := [SelectBusySlots 10 100]\<rparr>,
        \<lparr>http_status = 200, success = True, message = None, errors = None,
         data = Some ex_availability\<rparr>)"
    by (simp add: get_availability_def query_def busy_slots_def occupies_def availableSlots_def
          defaultSlots_grid slot_grid_def collides_def slot_seconds_def digit_value_def
          ex_availability_def ex_conn_def ex_store_def ex_booking_def ex_service_def
          accepts_all_def Let_def)
  have dat: "data \<lparr>http_status = 200, success = True, message = None, errors = None,
         data = Some ex_availability\<rparr> = Some ex_availability"
    by simp
  have slot: "''10:00'' \<in> set (av_available_slots ex_availability)"
    by (simp add: ex_availability_def)
  have facts: "''10:00'' = slot_grid ! 4" "ex_booking \<in> set (bookings (db ex_conn))"
    "b_scheduled_time ex_booking = 32400" "s_duration_minutes ex_service = Some 60"
    "grid_start 4 = 36000"
    by (simp_all add: slot_grid_def ex_conn_def ex_store_def ex_booking_def ex_service_def
          grid_start_def)
  from C10_available_slots_free[OF run dat slot]
  have concl: "\<exists>k<20. ''10:00'' = slot_grid ! k
         \<and> (\<forall>b s m t.
               b \<in> set (bookings (db ex_conn)) \<and> b_therapist_id b = Some 10
               \<and> Some 100 = Some (b_scheduled_date b)
               \<and> b_status b \<noteq> ''cancelled'' \<and> b_status b \<noteq> ''completed''
               \<and> s \<in> set (services (db ex_conn)) \<and> b_service_id b = Some (s_id s)
               \<and> s_duration_minutes s = Some m
               \<longrightarrow> \<not> (grid_start k \<le> t \<and> t < grid_start k + 60 * 60
                      \<and> b_scheduled_time b \<le> t \<and> t < b_scheduled_time b + 60 * m))"
    by (rule conjunct2)
  show ?thesis
    by (rule conjI[OF run conjI[OF slot conjI[OF facts(1) conjI[OF facts(2) conjI[OF facts(3)
          conjI[OF facts(4) conjI[OF facts(5) concl]]]]]]])
qed


section \<open>Properties of the error responses\<close>











section \<open>Properties of the schema\<close>

lemma row_accepted_column:
  assumes "row_accepted cols r" "c \<in> set cols"
  shows "has_type (col_type c) (field r (col_name c))"
    and "\<And>k. k \<in> set (col_constraints c) \<Longrightarrow> satisfies k (field r (col_name c))"
  using assms by (auto simp: row_accepted_def column_accepts_def list_all_iff)

lemma unique_not_null_distinct:
  assumes "table_accepted cols rows" "c \<in> set cols"
    and "UNIQUE \<in> set (col_constraints c)" "NOT_NULL \<in> set (col_constraints c)"
  shows "distinct (map (\<lambda>r. field r (col_name c)) rows)"
proof -
  have rows: "\<forall>r\<in>set rows. row_accepted cols r"
    using assms(1) by (simp add: table_accepted_def list_all_iff)
  have "\<forall>r\<in>set rows. field r (col_name c) \<noteq> Null"
    using rows row_accepted_column(2)[OF _ assms(2) assms(4)] by fastforce
  then have same: "filter (\<lambda>v. v \<noteq> Null) (map (\<lambda>r. field r (col_name c)) rows)
                   = map (\<lambda>r. field r (col_name c)) rows"
    by (induction rows) auto
  have "col_name c \<in> set (key_columns cols)"
    using assms(2,3) by (auto simp: key_columns_def)
  then have "distinct (filter (\<lambda>v. v \<noteq> Null) (map (\<lambda>r. field r (col_name c)) rows))"
    using assms(1) by (simp add: table_accepted_def keys_distinct_def list_all_iff)
  with same show ?thesis by simp
qed

lemma check_in_value:
  assumes "row_accepted cols r" "c \<in> set cols" "CHECK_IN allowed \<in> set (col_constraints c)"
  shows "field r (col_name c) = Null \<or> (\<exists>s\<in>set allowed. field r (col_name c) = VText s)"
  using row_accepted_column(2)[OF assms]
  by (cases "field r (col_name c)") auto

lemma decimal_value:
  assumes "row_accepted cols r" "c \<in> set cols" "col_type c = DECIMAL p s"
  shows "field r (col_name c) = Null
       \<or> (\<exists>x. field r (col_name c) = VNum x \<and> \<bar>x\<bar> < 10 ^ (p - s)
              \<and> x * 10 ^ s = of_int \<lfloor>x * 10 ^ s\<rfloor>)"
  using row_accepted_column(1)[OF assms(1,2)] assms(3)
  by (cases "field r (col_name c)") auto

lemma table_rows:
  assumes "table_accepted cols rows" "r \<in> set rows"
  shows "row_accepted cols r"
  using assms by (simp add: table_accepted_def list_all_iff)

text \<open>
  Claim C7, as amended. In every state the schema accepts, \<open>users.email\<close>,
  \<open>affiliates.referral_code\<close> and \<open>licenses.serial_key\<close> are unique; every non-null
  \<open>status\<close> of a booking, a commission and a license is one of the values of its
  \<open>CHECK\<close>; and \<open>affiliates.commission_rate\<close> is limited only by its type
  \<open>DECIMAL(5, 2)\<close> (two decimal places, absolute value below 1000): the column has a
  default and no \<open>CHECK\<close>.
\<close>

theorem C7_schema_constraints:
  assumes "table_accepted users_table urows" and "table_accepted affiliates_table arows"
    and "table_accepted bookings_table brows" and "table_accepted commissions_table crows"
    and "table_accepted licenses_table lrows"
  shows "distinct (map (\<lambda>r. field r ''email'') urows)
       \<and> distinct (map (\<lambda>r. field r ''referral_code'') arows)
       \<and> distinct (map (\<lambda>r. field r ''serial_key'') lrows)
       \<and> (\<forall>r\<in>set brows. field r ''status'' = Null
              \<or> (\<exists>s\<in>set booking_statuses. field r ''status'' = VText s))
       \<and> (\<forall>r\<in>set crows. field r ''status'' = Null
              \<or> (\<exists>s\<in>set commission_statuses. field r ''status'' = VText s))
       \<and> (\<forall>r\<in>set lrows. field r ''status'' = Null
              \<or> (\<exists>s\<in>set license_statuses. field r ''status'' = VText s))
       \<and> (\<forall>r\<in>set arows. field r ''commission_rate'' = Null
              \<or> (\<exists>x. field r ''commission_rate'' = VNum x \<and> \<bar>x\<bar> < 1000
                     \<and> x * 100 = of_int \<lfloor>x * 100\<rfloor>))
       \<and> column_of affiliates_table ''commission_rate''
            = Some \<lparr>col_name = ''commission_rate'', col_type = DECIMAL 5 2,
                    col_constraints = [DEFAULT ''15.00'']\<rparr>"
proof -
  let ?email = "\<lparr>col_name = ''email'', col_type = VARCHAR 255, col_constraints = [UNIQUE, NOT_NULL]\<rparr>"
  let ?code = "\<lparr>col_name = ''referral_code'', col_type = VARCHAR 20,
                col_constraints = [UNIQUE, NOT_NULL]\<rparr>"
  let ?key = "\<lparr>col_name = ''serial_key'', col_type = VARCHAR 50, col_constraints = [UNIQUE, NOT_NULL]\<rparr>"
  let ?bst = "\<lparr>col_name = ''status'', col_type = VARCHAR 50,
        col_constraints =
          [DEFAULT ''pending'', CHECK_IN [''pending'', ''confirmed'', ''cancelled'', ''completed'']]\<rparr>"
  let ?cst = "\<lparr>col_name = ''status'', col_type = VARCHAR 50,
        col_constraints = [DEFAULT ''pending'', CHECK_IN [''pending'', ''paid'', ''cancelled'']]\<rparr>"
  let ?lst = "\<lparr>col_name = ''status'', col_type = VARCHAR 50,
        col_constraints =
          [DEFAULT ''pending'', CHECK_IN [''pending'', ''active'', ''expired'', ''revoked'']]\<rparr>"
  let ?rate = "\<lparr>col_name = ''commission_rate'', col_type = DECIMAL 5 2,
        col_constraints = [DEFAULT ''15.00'']\<rparr>"
  have 1: "distinct (map (\<lambda>r. field r ''email'') urows)"
    using unique_not_null_distinct[OF assms(1), of ?email] by (simp add: users_table_def)
  have 2: "distinct (map (\<lambda>r. field r ''referral_code'') arows)"
    using unique_not_null_distinct[OF assms(2), of ?code] by (simp add: affiliates_table_def)
  have 3: "distinct (map (\<lambda>r. field r ''serial_key'') lrows)"
    using unique_not_null_distinct[OF assms(5), of ?key] by (simp add: licenses_table_def)
  have 4: "\<forall>r\<in>set brows. field r ''status'' = Null
              \<or> (\<exists>s\<in>set booking_statuses. field r ''status'' = VText s)"
  proof
    fix r assume "r \<in> set brows"
    from check_in_value[OF table_rows[OF assms(3) this], of ?bst booking_statuses]
    show "field r ''status'' = Null \<or> (\<exists>s\<in>set booking_statuses. field r ''status'' = VText s)"
      by (simp add: bookings_table_def booking_statuses_def)
  qed
  have 5: "\<forall>r\<in>set crows. field r ''status'' = Null
              \<or> (\<exists>s\<in>set commission_statuses. field r ''status'' = VText s)"
  proof
    fix r assume "r \<in> set crows"
    from check_in_value[OF table_rows[OF assms(4) this], of ?cst commission_statuses]
    show "field r ''status'' = Null \<or> (\<exists>s\<in>set commission_statuses. field r ''status'' = VText s)"
      by (simp add: commissions_table_def commission_statuses_def)
  qed
  have 6: "\<forall>r\<in>set lrows. field r ''status'' = Null
              \<or> (\<exists>s\<in>set license_statuses. field r ''status'' = VText s)"
  proof
    fix r assume "r \<in> set lrows"
    from check_in_value[OF table_rows[OF assms(5) this], of ?lst license_statuses]
    show "field r ''status'' = Null \<or> (\<exists>s\<in>set license_statuses. field r ''status'' = VText s)"
      by (simp add: licenses_table_def license_statuses_def)
  qed
  have 7: "\<forall>r\<in>set arows. field r ''commission_rate'' = Null
              \<or> (\<exists>x. field r ''commission_rate'' = VNum x \<and> \<bar>x\<bar> < 1000
                     \<and> x * 100 = of_int \<lfloor>x * 100\<rfloor>)"
  proof
    fix r assume "r \<in> set arows"
    from decimal_value[OF table_rows[OF assms(2) this], of ?rate 5 2]
    show "field r ''commission_rate'' = Null
              \<or> (\<exists>x. field r ''commission_rate'' = VNum x \<and> \<bar>x\<bar> < 1000
                     \<and> x * 100 = of_int \<lfloor>x * 100\<rfloor>)"
      by (simp add: affiliates_table_def)
  qed
  have 8: "column_of affiliates_table ''commission_rate'' = Some ?rate"
    by (simp add: column_of_def affiliates_table_def)
  from 1 2 3 4 5 6 7 8 show ?thesis by (intro conjI)
qed


lemmas schema_defs = table_accepted_def row_accepted_def column_accepts_def keys_distinct_def
  key_columns_def field_def

theorem C7_schema_constraints_witness:
  "table_accepted users_table ex_user_rows
   \<and> table_accepted affiliates_table [ex_row_negative_rate, ex_row_huge_rate]
   \<and> table_accepted bookings_table ex_booking_rows
   \<and> table_accepted commissions_table ex_commission_rows
   \<and> table_accepted licenses_table ex_license_rows
   \<and> distinct (map (\<lambda>r. field r ''email'') ex_user_rows)
   \<and> distinct (map (\<lambda>r. field r ''referral_code'') [ex_row_negative_rate, ex_row_huge_rate])
   \<and> distinct (map (\<lambda>r. field r ''serial_key'') ex_license_rows)"
proof -
  have h1: "table_accepted users_table ex_user_rows"
    by (simp add: schema_defs users_table_def ex_user_rows_def)
  have h2: "table_accepted affiliates_table [ex_row_negative_rate, ex_row_huge_rate]"
    by (simp add: schema_defs affiliates_table_def ex_row_negative_rate_def ex_row_huge_rate_def)
  have h3: "table_accepted bookings_table ex_booking_rows"
    by (simp add: schema_defs bookings_table_def ex_booking_rows_def)
  have h4: "table_accepted commissions_table ex_commission_rows"
    by (simp add: schema_defs commissions_table_def ex_commission_rows_def)
  have h5: "table_accepted licenses_table ex_license_rows"
    by (simp add: schema_defs licenses_table_def ex_license_rows_def)
  note inst = C7_schema_constraints[OF h1 h2 h3 h4 h5]
  note c1 = inst[THEN conjunct1]
  note c2 = inst[THEN conjunct2, THEN conjunct1]
  note c3 = inst[THEN conjunct2, THEN conjunct2, THEN conjunct1]
  show ?thesis
    by (rule conjI[OF h1 conjI[OF h2 conjI[OF h3 conjI[OF h4 conjI[OF h5
          conjI[OF c1 conjI[OF c2 c3]]]]]]])
qed

text \<open>
  The claim as stated fails for the range check: the schema puts no \<open>CHECK\<close> on
  \<open>affiliates.commission_rate\<close>, and the table accepts a rate of \<open>-50\<close> and a rate of
  \<open>999.99\<close>.
\<close>

theorem C7_commission_rate_range_counterexample:
  "table_accepted affiliates_table [ex_row_negative_rate, ex_row_huge_rate]
   \<and> field ex_row_negative_rate ''commission_rate'' = VNum (- 50)
   \<and> field ex_row_huge_rate ''commission_rate'' = VNum (99999 / 100)
   \<and> column_of affiliates_table ''commission_rate''
        = Some \<lparr>col_name = ''commission_rate'', col_type = DECIMAL 5 2,
                col_constraints = [DEFAULT ''15.00'']\<rparr>
   \<and> filter is_check [DEFAULT ''15.00''] = []"
  by (simp add: schema_defs column_of_def affiliates_table_def ex_row_negative_rate_def
        ex_row_huge_rate_def)


end
